theory Spec2Isabelle
  imports Main "HOL-Library.Char_ord" "HOL-Library.List_Lexorder" "HOL-Library.AList"
    "HOL-Library.Multiset"
begin

section \<open>Data model of \<^verbatim>\<open>megalinter/MegaLinter.py\<close>\<close>

text \<open>
  The class \<^verbatim>\<open>Linter\<close> is imported by the file and not defined in it. The record below
  holds exactly the attributes of a linter that \<^verbatim>\<open>MegaLinter.py\<close> reads or writes.
  Python's \<^verbatim>\<open>int\<close> is unbounded, hence \<open>int\<close>; statuses are the strings the code compares.
\<close>

record linter =
  name :: string
  descriptor_id :: string
  is_active :: bool
  apply_fixes :: bool
  lint_all_files :: bool
  files :: "string list"
  status :: string
  return_code :: int
  number_fixed :: int

text \<open>
  The attributes of \<^verbatim>\<open>Megalinter\<close> (\<^verbatim>\<open>self\<close>) that the modelled methods use. The fields
  \<open>self_status\<close> and \<open>self_return_code\<close> are \<^verbatim>\<open>self.status\<close> and \<^verbatim>\<open>self.return_code\<close>
  (renamed: a record field name is global, and \<open>status\<close>, \<open>return_code\<close> are the linter's).
\<close>

record megalinter =
  workspace :: string
  validate_all_code_base :: bool
  linters :: "linter list"
  self_status :: string
  self_return_code :: int
  has_updated_sources :: int
  fail_if_updated_sources :: bool
  cli :: bool

text \<open>
  The object after \<^verbatim>\<open>__init__\<close>, as far as the modelled methods read it: the constructor
  sets \<^verbatim>\<open>self.status = "success"\<close>, \<^verbatim>\<open>self.return_code = 0\<close> and
  \<^verbatim>\<open>self.has_updated_sources = 0\<close>; the workspace, the two flags read from the
  configuration, \<^verbatim>\<open>cli\<close> and the linters that \<^verbatim>\<open>load_linters\<close> kept are the arguments.
\<close>

definition new_megalinter ::
    "string \<Rightarrow> bool \<Rightarrow> bool \<Rightarrow> bool \<Rightarrow> linter list \<Rightarrow> megalinter" where
  "new_megalinter ws validate_all fail_if_updated is_cli ls =
     \<lparr>workspace = ws, validate_all_code_base = validate_all, linters = ls,
      self_status = ''success'', self_return_code = 0, has_updated_sources = 0,
      fail_if_updated_sources = fail_if_updated, cli = is_cli\<rparr>"

text \<open>Every exception the modelled methods raise or let through.\<close>

datatype error =
    AssertionError string
  | FileNotFoundError string
  | InvalidGitRepositoryError
  | GitCommandError

section \<open>\<^verbatim>\<open>Megalinter.run\<close>: the status update loop (lines 168--183)\<close>

text \<open>
  One iteration of
  \<^verbatim>\<open>
  for linter in self.linters:
      if linter.status != "success":
          if linter.return_code == 0:
              if self.status == "success":
                  self.status = "warning"
          else:
              self.status = "error"
      if linter.return_code > 0:
          self.return_code = linter.return_code
      if linter.number_fixed > 0:
          self.has_updated_sources = 1
  \<close>
\<close>

definition update_status :: "megalinter \<Rightarrow> linter \<Rightarrow> megalinter" where
  "update_status self linter =
     (let self1 =
            (if status linter \<noteq> ''success'' then
               (if return_code linter = 0 then
                  (if self_status self = ''success''
                   then self\<lparr>self_status := ''warning''\<rparr> else self)
                else self\<lparr>self_status := ''error''\<rparr>)
             else self);
          self2 =
            (if return_code linter > 0
             then self1\<lparr>self_return_code := return_code linter\<rparr> else self1);
          self3 =
            (if number_fixed linter > 0
             then self2\<lparr>has_updated_sources := 1\<rparr> else self2)
      in self3)"

definition update_main_status :: "megalinter \<Rightarrow> megalinter" where
  "update_main_status self = foldl update_status self (linters self)"

text \<open>
  The reading of the data model's invariant ``exit code is the maximum non-zero blocking
  code observed, or zero'', written from the specification's words to be compared with
  the loop.
\<close>

definition max_nonzero_code :: "linter list \<Rightarrow> int" where
  "max_nonzero_code ls =
     (case filter (\<lambda>c. c \<noteq> 0) (map return_code ls) of
        [] \<Rightarrow> 0
      | c # cs \<Rightarrow> foldl max c cs)"

text \<open>The return code of the last linter, in iteration order, that satisfies \<open>P\<close>; zero if none.\<close>

definition last_code_where :: "(linter \<Rightarrow> bool) \<Rightarrow> linter list \<Rightarrow> int" where
  "last_code_where P ls =
     (case rev (filter P ls) of [] \<Rightarrow> 0 | l # _ \<Rightarrow> return_code l)"

section \<open>\<^verbatim>\<open>Megalinter.check_results\<close> and \<^verbatim>\<open>check_updated_sources_failure\<close>\<close>

text \<open>
  Both methods either call \<^verbatim>\<open>sys.exit(code)\<close>, modelled as \<open>Some code\<close>, or return to
  the caller, modelled as \<open>None\<close>.
\<close>

definition check_updated_sources_failure :: "megalinter \<Rightarrow> int option" where
  "check_updated_sources_failure self =
     (if has_updated_sources self > 0 \<and> fail_if_updated_sources self then Some 1 else None)"

text \<open>
  \<open>DISABLE_ERRORS\<close> is the outcome of \<^verbatim>\<open>config.get("DISABLE_ERRORS", "false") == "true"\<close>.
\<close>

definition check_results :: "bool \<Rightarrow> megalinter \<Rightarrow> int option" where
  "check_results DISABLE_ERRORS self =
     (if self_status self = ''success'' then check_updated_sources_failure self
      else if self_status self = ''warning'' then check_updated_sources_failure self
      else if cli self then (if DISABLE_ERRORS then Some 0 else Some (self_return_code self))
      else None)"

section \<open>\<^verbatim>\<open>Megalinter.get_workspace\<close>\<close>

text \<open>\<^verbatim>\<open>os.path.sep\<close> on a POSIX system.\<close>

definition sep :: string where
  "sep = ''/''"

text \<open>
  \<open>isdir\<close> is \<^verbatim>\<open>os.path.isdir\<close> on the file system of the run;
  \<open>DEFAULT_DOCKER_WORKSPACE_DIR\<close> is the constant imported from \<^verbatim>\<open>megalinter.constants\<close>;
  \<open>arg_input\<close> is \<^verbatim>\<open>self.arg_input\<close> (\<open>None\<close> as in Python); \<open>default_workspace\<close> and
  \<open>github_workspace\<close> are the two values read with \<^verbatim>\<open>config.get(..., "")\<close>.
  A failed \<^verbatim>\<open>assert\<close> is the error \<open>AssertionError\<close> with the assertion's message.
\<close>

definition get_workspace ::
    "(string \<Rightarrow> bool) \<Rightarrow> string \<Rightarrow> string option \<Rightarrow> string \<Rightarrow> string \<Rightarrow> error + string" where
  "get_workspace isdir DEFAULT_DOCKER_WORKSPACE_DIR arg_input default_workspace github_workspace =
     (case arg_input of
        Some inp \<Rightarrow>
          (if isdir inp then Inr inp
           else if isdir (DEFAULT_DOCKER_WORKSPACE_DIR @ ''/'' @ inp)
             then Inr (DEFAULT_DOCKER_WORKSPACE_DIR @ ''/'' @ inp)
             else Inl (AssertionError
               (''--input directory not found at '' @ DEFAULT_DOCKER_WORKSPACE_DIR @ ''/'' @ inp)))
      | None \<Rightarrow>
          (if default_workspace = '''' \<and> github_workspace \<noteq> ''''
                \<and> isdir (github_workspace @ DEFAULT_DOCKER_WORKSPACE_DIR)
             then Inr (github_workspace @ DEFAULT_DOCKER_WORKSPACE_DIR)
           else if default_workspace \<noteq> ''''
                \<and> isdir (DEFAULT_DOCKER_WORKSPACE_DIR @ sep @ default_workspace)
             then Inr (default_workspace @ DEFAULT_DOCKER_WORKSPACE_DIR @ sep @ default_workspace)
           else if default_workspace \<noteq> '''' \<and> isdir default_workspace
             then Inr default_workspace
           else if isdir DEFAULT_DOCKER_WORKSPACE_DIR
             then Inr DEFAULT_DOCKER_WORKSPACE_DIR
           else if default_workspace \<noteq> '''' \<and> github_workspace \<noteq> ''''
                \<and> isdir (github_workspace @ sep @ default_workspace)
             then Inr (github_workspace @ sep @ default_workspace)
           else if default_workspace = '''' \<and> github_workspace \<noteq> ''''
                \<and> github_workspace \<noteq> ''/'' \<and> isdir github_workspace
             then Inr github_workspace
           else Inl (FileNotFoundError
             (''[Context] Unable to find a workspace to lint '' @ [CHR 0x0A]
              @ ''DEFAULT_WORKSPACE: '' @ default_workspace @ [CHR 0x0A]
              @ ''GITHUB_WORKSPACE: '' @ github_workspace))))"

text \<open>
  The condition under which the third branch of the chain (``Docker run without override of
  DEFAULT\_WORKSPACE'') is the one taken: no input argument, a non-empty
  \<open>default_workspace\<close> (which rules out the second branch), and the directory the branch
  tests exists.
\<close>

definition docker_run_branch ::
    "(string \<Rightarrow> bool) \<Rightarrow> string \<Rightarrow> string option \<Rightarrow> string \<Rightarrow> bool" where
  "docker_run_branch isdir DEFAULT_DOCKER_WORKSPACE_DIR arg_input default_workspace =
     (arg_input = None \<and> default_workspace \<noteq> ''''
      \<and> isdir (DEFAULT_DOCKER_WORKSPACE_DIR @ sep @ default_workspace))"

section \<open>File discovery: \<^verbatim>\<open>list_files_git_diff\<close>, \<^verbatim>\<open>list_files_all\<close>, \<^verbatim>\<open>collect_files\<close>\<close>

text \<open>
  \<^verbatim>\<open>os.path.join\<close> of two components (\<^verbatim>\<open>posixpath.join\<close>).
\<close>

definition path_join :: "string \<Rightarrow> string \<Rightarrow> string" where
  "path_join a b =
     (if take 1 b = ''/'' then b
      else if a = [] \<or> last a = CHR ''/'' then a @ b
      else a @ ''/'' @ b)"

text \<open>
  The content of a directory as the operating system enumerates it: regular files and
  sub-directories with their own content, in the (arbitrary) order of \<^verbatim>\<open>os.listdir\<close> and
  \<^verbatim>\<open>os.walk\<close>. Symbolic links and special files are not modelled.
\<close>

datatype fs_entry = File string | Dir string "fs_entry list"

fun entry_name :: "fs_entry \<Rightarrow> string" where
  "entry_name (File n) = n"
| "entry_name (Dir n _) = n"

fun filenames :: "fs_entry list \<Rightarrow> string list" where
  "filenames [] = []"
| "filenames (File n # es) = n # filenames es"
| "filenames (Dir _ _ # es) = filenames es"

text \<open>
  The loop over \<^verbatim>\<open>os.walk(self.workspace, topdown=True)\<close>: for a directory, its file names
  sorted and joined with \<open>dirpath\<close>, then the walk of each sub-directory whose name is not
  excluded (the names are pruned from \<^verbatim>\<open>dirnames\<close> before the walk descends).
\<close>

fun walk :: "string list \<Rightarrow> string \<Rightarrow> fs_entry list \<Rightarrow> string list"
  and walk_entry :: "string list \<Rightarrow> string \<Rightarrow> fs_entry \<Rightarrow> string list" where
  "walk excluded_directories dirpath entries =
     map (path_join dirpath) (sort (filenames entries))
     @ concat (map (walk_entry excluded_directories dirpath) entries)"
| "walk_entry excluded_directories dirpath (File _) = []"
| "walk_entry excluded_directories dirpath (Dir d sub) =
     (if d \<in> set excluded_directories then []
      else walk excluded_directories (path_join dirpath d) sub)"

text \<open>
  \<open>excluded_directories\<close> is the result of \<^verbatim>\<open>utils.get_excluded_directories()\<close>; \<open>root\<close> is the
  content of the workspace directory. \<^verbatim>\<open>os.path.isfile\<close> on an entry of the workspace is
  true when the entry is a \<open>File\<close>.
\<close>

definition list_files_all :: "string list \<Rightarrow> fs_entry list \<Rightarrow> megalinter \<Rightarrow> string list" where
  "list_files_all excluded_directories root self =
     map (path_join (workspace self))
         (filter (\<lambda>file. File file \<in> set root) (sort (map entry_name root)))
     @ walk excluded_directories (workspace self) root"

text \<open>
  \<open>git_diff\<close> is what the version-control library does for \<^verbatim>\<open>list_files_git_diff\<close>: it
  raises (\<open>Inl\<close>; \<^verbatim>\<open>git.Repo\<close> raises \<open>InvalidGitRepositoryError\<close> outside a repository), or
  it gives the lines of \<^verbatim>\<open>git diff --name-only\<close>. \<open>isfile\<close> is \<^verbatim>\<open>os.path.isfile\<close>. The
  authorization header the method may write is not modelled.
\<close>

definition list_files_git_diff ::
    "(string \<Rightarrow> bool) \<Rightarrow> error + string list \<Rightarrow> megalinter \<Rightarrow> error + string list" where
  "list_files_git_diff isfile git_diff self =
     (case git_diff of
        Inl e \<Rightarrow> Inl e
      | Inr diff_lines \<Rightarrow>
          Inr (map (\<lambda>diff_line. workspace self @ sep @ diff_line)
                 (filter (\<lambda>diff_line. isfile (workspace self @ sep @ diff_line)) diff_lines)))"

text \<open>
  Lines 514--542 of \<^verbatim>\<open>collect_files\<close>: the list \<^verbatim>\<open>all_files\<close> before it is sorted, with the
  updated \<^verbatim>\<open>self\<close>. \<open>files_to_lint\<close> is \<^verbatim>\<open>config.get_list("MEGALINTER_FILES_TO_LINT", [])\<close>.
  Only \<open>InvalidGitRepositoryError\<close> is caught; any other exception leaves the method.
\<close>

definition list_all_files ::
    "string list \<Rightarrow> (string \<Rightarrow> bool) \<Rightarrow> error + string list \<Rightarrow> string list \<Rightarrow> fs_entry list
      \<Rightarrow> megalinter \<Rightarrow> error + (string list \<times> megalinter)" where
  "list_all_files files_to_lint isfile git_diff excluded_directories root self =
     (if length files_to_lint > 0 then
        Inr (map (\<lambda>file_to_lint. workspace self @ sep @ file_to_lint)
               (filter (\<lambda>file_to_lint. isfile (workspace self @ sep @ file_to_lint))
                  files_to_lint),
             self)
      else if \<not> validate_all_code_base self then
        (case list_files_git_diff isfile git_diff self of
           Inr all_files \<Rightarrow> Inr (all_files, self)
         | Inl InvalidGitRepositoryError \<Rightarrow>
             Inr (list_files_all excluded_directories root self,
                  self\<lparr>validate_all_code_base := True\<rparr>)
         | Inl e \<Rightarrow> Inl e)
      else Inr (list_files_all excluded_directories root self, self))"

text \<open>Line 543, \<^verbatim>\<open>all_files = sorted(set(all_files))\<close>, after lines 514--542.\<close>

definition sorted_all_files ::
    "string list \<Rightarrow> (string \<Rightarrow> bool) \<Rightarrow> error + string list \<Rightarrow> string list \<Rightarrow> fs_entry list
      \<Rightarrow> megalinter \<Rightarrow> error + (string list \<times> megalinter)" where
  "sorted_all_files files_to_lint isfile git_diff excluded_directories root self =
     (case list_all_files files_to_lint isfile git_diff excluded_directories root self of
        Inl e \<Rightarrow> Inl e
      | Inr (all_files, self') \<Rightarrow> Inr (sorted_list_of_set (set all_files), self'))"

text \<open>
  The body of the loop of lines 617--620. \<open>linter_collect_files\<close> is the method
  \<^verbatim>\<open>Linter.collect_files\<close>, which is not in this file: it is a parameter, free to update the
  linter in any way.
\<close>

definition collect_linter_files ::
    "(linter \<Rightarrow> string list \<Rightarrow> linter) \<Rightarrow> string list \<Rightarrow> linter \<Rightarrow> linter" where
  "collect_linter_files linter_collect_files filtered_files linter =
     (let linter' = linter_collect_files linter filtered_files
      in if length (files linter') = 0 \<and> \<not> lint_all_files linter'
         then linter'\<lparr>is_active := False\<rparr> else linter')"

text \<open>
  \<^verbatim>\<open>collect_files\<close>. \<open>filter_files\<close> is \<^verbatim>\<open>utils.filter_files\<close> applied to the sorted list, with
  the regular expressions, extensions and ignored files of the run (lines 548--602).
\<close>

definition collect_files ::
    "string list \<Rightarrow> (string \<Rightarrow> bool) \<Rightarrow> error + string list \<Rightarrow> string list \<Rightarrow> fs_entry list
      \<Rightarrow> (string list \<Rightarrow> string list) \<Rightarrow> (linter \<Rightarrow> string list \<Rightarrow> linter)
      \<Rightarrow> megalinter \<Rightarrow> error + megalinter" where
  "collect_files files_to_lint isfile git_diff excluded_directories root filter_files
       linter_collect_files self =
     (case sorted_all_files files_to_lint isfile git_diff excluded_directories root self of
        Inl e \<Rightarrow> Inl e
      | Inr (all_files, self') \<Rightarrow>
          Inr (self'\<lparr>linters :=
                 map (collect_linter_files linter_collect_files (filter_files all_files))
                   (linters self')\<rparr>))"

text \<open>
  Two enumerations of the same directory tree: the same entries at every level, with the
  same content, in any order.
\<close>

inductive same_tree :: "fs_entry \<Rightarrow> fs_entry \<Rightarrow> bool" where
  same_file: "same_tree (File n) (File n)"
| same_dir: "list_all2 same_tree sub sub' \<Longrightarrow> mset sub' = mset sub''
     \<Longrightarrow> same_tree (Dir d sub) (Dir d sub'')"

section \<open>\<^verbatim>\<open>Megalinter.run\<close> (lines 145--166) and \<^verbatim>\<open>process_linters_parallel\<close>\<close>

text \<open>
  The loop that collects \<^verbatim>\<open>active_linters\<close> and computes \<^verbatim>\<open>linters_do_fixes\<close>.
\<close>

definition select_active :: "linter list \<Rightarrow> linter list \<times> bool" where
  "select_active ls =
     foldl (\<lambda>(active_linters, linters_do_fixes) linter.
              if is_active linter
              then (active_linters @ [linter],
                    if apply_fixes linter then True else linters_do_fixes)
              else (active_linters, linters_do_fixes))
       ([], False) ls"

text \<open>
  Lines 158--161. \<^verbatim>\<open>flavor_factory.check_active_linters_match_flavor\<close> is not in this file:
  \<open>matches\<close> is what the call returns and \<open>active_linters\<close> holds the linters as the call
  leaves them (it receives the objects of \<^verbatim>\<open>self.linters\<close> and can deactivate some). When
  it returns \<^verbatim>\<open>False\<close> the list is filtered again; \<^verbatim>\<open>linters_do_fixes\<close> is not assigned.
\<close>

definition after_flavor_check :: "bool \<Rightarrow> linter list \<Rightarrow> linter list" where
  "after_flavor_check matches active_linters =
     (if \<not> matches then filter is_active active_linters else active_linters)"

text \<open>
  Lines 145--166: the two arguments with which \<^verbatim>\<open>run\<close> calls \<^verbatim>\<open>process_linters_parallel\<close>.
  The flavor check is a parameter: applied to the list of active linters it gives what it
  returns and the linters as it leaves them.
\<close>

definition parallel_arguments ::
    "(linter list \<Rightarrow> bool \<times> linter list) \<Rightarrow> linter list \<Rightarrow> linter list \<times> bool" where
  "parallel_arguments check_active_linters_match_flavor ls =
     (case select_active ls of
        (active_linters, linters_do_fixes) \<Rightarrow>
          (case check_active_linters_match_flavor active_linters of
             (matches, active_linters) \<Rightarrow>
               (after_flavor_check matches active_linters, linters_do_fixes)))"

text \<open>
  The dictionary \<^verbatim>\<open>linters_by_descriptor\<close> is an association list: a Python \<^verbatim>\<open>dict\<close> keeps its
  keys in insertion order, and \<open>AList.update\<close> replaces the value of a key in place or
  appends a new key at the end.
\<close>

definition add_to_descriptor ::
    "(string \<times> linter list) list \<Rightarrow> linter \<Rightarrow> (string \<times> linter list) list" where
  "add_to_descriptor linters_by_descriptor linter =
     (let descriptor_active_linters =
            (case map_of linters_by_descriptor (descriptor_id linter) of
               None \<Rightarrow> [] | Some ls \<Rightarrow> ls)
      in AList.update (descriptor_id linter) (descriptor_active_linters @ [linter])
           linters_by_descriptor)"

text \<open>Lines 216--231: the groups submitted to the pool.\<close>

definition linter_groups :: "linter list \<Rightarrow> bool \<Rightarrow> linter list list" where
  "linter_groups active_linters linters_do_fixes =
     (if linters_do_fixes
      then map snd (foldl add_to_descriptor [] active_linters)
      else map (\<lambda>linter. [linter]) active_linters)"

text \<open>
  Lines 251--254: the first entry of \<^verbatim>\<open>self.linters\<close> with the name of \<open>updated_linter\<close> is
  replaced by it; nothing changes when no entry has that name.
\<close>

fun replace_by_name :: "linter \<Rightarrow> linter list \<Rightarrow> linter list" where
  "replace_by_name updated_linter [] = []"
| "replace_by_name updated_linter (l # ls) =
     (if name l = name updated_linter then updated_linter # ls
      else l # replace_by_name updated_linter ls)"

text \<open>
  Lines 248--254. \<open>pool_results\<close> holds, for each group in the order of submission, the
  list that \<^verbatim>\<open>run_linters\<close> returned for it.
\<close>

definition update_linters :: "linter list list \<Rightarrow> linter list \<Rightarrow> linter list" where
  "update_linters pool_results ls =
     foldl (\<lambda>ls updated_linters.
              foldl (\<lambda>ls updated_linter. replace_by_name updated_linter ls) ls updated_linters)
       ls pool_results"

text \<open>
  \<^verbatim>\<open>process_linters_parallel\<close>. \<open>pool\<close> stands for the pool of processes: it maps the groups
  to what \<^verbatim>\<open>run_linters\<close> returned for each of them, the linters of the group after their
  \<^verbatim>\<open>run\<close> (the method \<^verbatim>\<open>Linter.run\<close> is not in this file).
\<close>

definition process_linters_parallel ::
    "(linter list list \<Rightarrow> linter list list) \<Rightarrow> linter list \<Rightarrow> bool \<Rightarrow> megalinter \<Rightarrow> megalinter" where
  "process_linters_parallel pool active_linters linters_do_fixes self =
     self\<lparr>linters := update_linters (pool (linter_groups active_linters linters_do_fixes))
                        (linters self)\<rparr>"

text \<open>
  The elements of a list in the order of their first occurrence: the order of the keys of a
  Python \<^verbatim>\<open>dict\<close> filled in that order.
\<close>

definition first_seen :: "'a list \<Rightarrow> 'a list" where
  "first_seen xs = rev (remdups (rev xs))"

text \<open>What \<^verbatim>\<open>run_linters\<close> returns for a group is the group's linters, by name, in order.\<close>

definition same_names :: "linter list list \<Rightarrow> linter list list \<Rightarrow> bool" where
  "same_names groups pool_results =
     list_all2 (list_all2 (\<lambda>linter updated_linter. name updated_linter = name linter))
       groups pool_results"

section \<open>Facts about the status update loop\<close>

lemma update_status_linters [simp]: "linters (update_status self l) = linters self"
  by (simp add: update_status_def Let_def)

lemma update_status_fail_if [simp]:
  "fail_if_updated_sources (update_status self l) = fail_if_updated_sources self"
  by (simp add: update_status_def Let_def)

lemma update_status_cli [simp]: "cli (update_status self l) = cli self"
  by (simp add: update_status_def Let_def)

lemma update_status_return_code:
  "self_return_code (update_status self l) =
     (if return_code l > 0 then return_code l else self_return_code self)"
  by (simp add: update_status_def Let_def)

lemma update_status_status:
  "self_status (update_status self l) =
     (if status l \<noteq> ''success'' then
        (if return_code l = 0 then
           (if self_status self = ''success'' then ''warning'' else self_status self)
         else ''error'')
      else self_status self)"
  by (simp add: update_status_def Let_def)

lemma update_status_updated:
  "has_updated_sources (update_status self l) =
     (if number_fixed l > 0 then 1 else has_updated_sources self)"
  by (simp add: update_status_def Let_def)

lemma foldl_update_status_return_code:
  "self_return_code (foldl update_status self ls) =
     (case rev (filter (\<lambda>l. return_code l > 0) ls) of
        [] \<Rightarrow> self_return_code self
      | l # _ \<Rightarrow> return_code l)"
proof (induction ls rule: rev_induct)
  case Nil
  show ?case by simp
next
  case (snoc l ls)
  then show ?case by (simp add: update_status_return_code)
qed

lemma foldl_update_status_status:
  "self_status (foldl update_status self ls) =
     (if \<exists>l \<in> set ls. status l \<noteq> ''success'' \<and> return_code l \<noteq> 0 then ''error''
      else if \<exists>l \<in> set ls. status l \<noteq> ''success'' \<and> return_code l = 0 then
        (if self_status self = ''success'' then ''warning'' else self_status self)
      else self_status self)"
proof (induction ls rule: rev_induct)
  case Nil
  show ?case by simp
next
  case (snoc l ls)
  show ?case
  proof (cases "status l \<noteq> ''success''")
    case False
    then show ?thesis using snoc by (auto simp add: update_status_status)
  next
    case True
    note nonsucc = this
    show ?thesis
    proof (cases "return_code l = 0")
      case True
      then show ?thesis using snoc nonsucc by (auto simp add: update_status_status)
    next
      case False
      then show ?thesis using nonsucc by (auto simp add: update_status_status)
    qed
  qed
qed

lemma foldl_update_status_updated:
  "has_updated_sources (foldl update_status self ls) =
     (if \<exists>l \<in> set ls. number_fixed l > 0 then 1 else has_updated_sources self)"
  by (induction ls rule: rev_induct) (auto simp add: update_status_updated)

lemma foldl_update_status_fail_if [simp]:
  "fail_if_updated_sources (foldl update_status self ls) = fail_if_updated_sources self"
  by (induction ls rule: rev_induct) simp_all

lemma foldl_update_status_cli [simp]:
  "cli (foldl update_status self ls) = cli self"
  by (induction ls rule: rev_induct) simp_all


lemma new_megalinter_sel [simp]:
  "workspace (new_megalinter ws v f c ls) = ws"
  "validate_all_code_base (new_megalinter ws v f c ls) = v"
  "linters (new_megalinter ws v f c ls) = ls"
  "self_status (new_megalinter ws v f c ls) = ''success''"
  "self_return_code (new_megalinter ws v f c ls) = 0"
  "has_updated_sources (new_megalinter ws v f c ls) = 0"
  "fail_if_updated_sources (new_megalinter ws v f c ls) = f"
  "cli (new_megalinter ws v f c ls) = c"
  by (simp_all add: new_megalinter_def)

lemma update_main_status_return_code:
  "self_return_code (update_main_status (new_megalinter ws v f c ls))
     = last_code_where (\<lambda>l. 0 < return_code l) ls"
  by (simp add: update_main_status_def last_code_where_def foldl_update_status_return_code
           split: list.splits)

lemma update_main_status_status:
  "self_status (update_main_status (new_megalinter ws v f c ls)) =
     (if \<exists>l \<in> set ls. status l \<noteq> ''success'' \<and> return_code l \<noteq> 0 then ''error''
      else if \<exists>l \<in> set ls. status l \<noteq> ''success'' \<and> return_code l = 0 then ''warning''
      else ''success'')"
  by (simp add: update_main_status_def foldl_update_status_status)

lemma update_main_status_updated:
  "has_updated_sources (update_main_status (new_megalinter ws v f c ls)) =
     (if \<exists>l \<in> set ls. 0 < number_fixed l then 1 else 0)"
  by (simp add: update_main_status_def foldl_update_status_updated)

lemma update_main_status_flags [simp]:
  "fail_if_updated_sources (update_main_status self) = fail_if_updated_sources self"
  "cli (update_main_status self) = cli self"
  by (simp_all add: update_main_status_def)

section \<open>The exit code and the status after the loop\<close>

text \<open>
  Counterexample to claim C2 as stated: two blocking linters with return codes 2 then 1
  leave the exit code 1, and the maximum non-zero code observed is 2.
\<close>

theorem exit_code_is_not_the_maximum:
  "self_return_code (update_main_status (new_megalinter ''/tmp/lint'' True False True
      [\<lparr>name = ''PYTHON_BLACK'', descriptor_id = ''PYTHON'', is_active = True,
        apply_fixes = False, lint_all_files = False, files = [''a.py''],
        status = ''error'', return_code = 2, number_fixed = 0\<rparr>,
       \<lparr>name = ''PYTHON_FLAKE8'', descriptor_id = ''PYTHON'', is_active = True,
        apply_fixes = False, lint_all_files = False, files = [''a.py''],
        status = ''error'', return_code = 1, number_fixed = 0\<rparr>]))
   \<noteq> max_nonzero_code
      [\<lparr>name = ''PYTHON_BLACK'', descriptor_id = ''PYTHON'', is_active = True,
        apply_fixes = False, lint_all_files = False, files = [''a.py''],
        status = ''error'', return_code = 2, number_fixed = 0\<rparr>,
       \<lparr>name = ''PYTHON_FLAKE8'', descriptor_id = ''PYTHON'', is_active = True,
        apply_fixes = False, lint_all_files = False, files = [''a.py''],
        status = ''error'', return_code = 1, number_fixed = 0\<rparr>]"
  by (simp add: update_main_status_return_code last_code_where_def max_nonzero_code_def)

text \<open>
  Claim C2, amended: after the loop over all linters, \<^verbatim>\<open>self.return_code\<close> is the return
  code of the last linter, in iteration order, whose return code is strictly positive, or
  zero if no linter has a positive return code. This holds for every list of linters.
\<close>

theorem exit_code_is_last_positive_code:
  "self_return_code (update_main_status (new_megalinter ws validate_all fail_if_updated is_cli ls))
     = last_code_where (\<lambda>l. 0 < return_code l) ls"
  by (rule update_main_status_return_code)

text \<open>
  Counterexample to claim C3 as stated: after a linter with return code 2, a linter with
  return code -1 is the last one with a non-zero return code, and the exit code stays 2.
\<close>

theorem exit_code_last_nonzero_fails:
  "self_return_code (update_main_status (new_megalinter ''/tmp/lint'' True False True
      [\<lparr>name = ''PYTHON_BLACK'', descriptor_id = ''PYTHON'', is_active = True,
        apply_fixes = False, lint_all_files = False, files = [''a.py''],
        status = ''error'', return_code = 2, number_fixed = 0\<rparr>,
       \<lparr>name = ''PYTHON_FLAKE8'', descriptor_id = ''PYTHON'', is_active = True,
        apply_fixes = False, lint_all_files = False, files = [''a.py''],
        status = ''error'', return_code = - 1, number_fixed = 0\<rparr>]))
   \<noteq> last_code_where (\<lambda>l. return_code l \<noteq> 0)
      [\<lparr>name = ''PYTHON_BLACK'', descriptor_id = ''PYTHON'', is_active = True,
        apply_fixes = False, lint_all_files = False, files = [''a.py''],
        status = ''error'', return_code = 2, number_fixed = 0\<rparr>,
       \<lparr>name = ''PYTHON_FLAKE8'', descriptor_id = ''PYTHON'', is_active = True,
        apply_fixes = False, lint_all_files = False, files = [''a.py''],
        status = ''error'', return_code = - 1, number_fixed = 0\<rparr>]"
  by (simp add: update_main_status_return_code last_code_where_def)

text \<open>
  Claim C3, amended: for every list of linters, the overall status is \<open>error\<close> if and only
  if some linter has a status other than \<open>success\<close> and a non-zero return code; otherwise
  it is \<open>warning\<close> if some linter has a status other than \<open>success\<close> with return code
  zero; otherwise \<open>success\<close>. The exit code is the return code of the last linter whose
  return code is strictly positive (zero if there is none).
\<close>

theorem status_precedence_and_last_positive_code:
  "self_status (update_main_status (new_megalinter ws validate_all fail_if_updated is_cli ls)) =
     (if \<exists>l \<in> set ls. status l \<noteq> ''success'' \<and> return_code l \<noteq> 0 then ''error''
      else if \<exists>l \<in> set ls. status l \<noteq> ''success'' \<and> return_code l = 0 then ''warning''
      else ''success'')
   \<and> self_return_code
        (update_main_status (new_megalinter ws validate_all fail_if_updated is_cli ls))
       = last_code_where (\<lambda>l. 0 < return_code l) ls"
  by (simp only: update_main_status_status update_main_status_return_code simp_thms)

lemma last_code_where_none:
  "\<forall>l \<in> set ls. \<not> P l \<Longrightarrow> last_code_where P ls = 0"
  by (simp add: last_code_where_def filter_False)

text \<open>
  Claim C10: a linter whose status is not \<open>success\<close> and whose return code is strictly
  negative sets the overall status to \<open>error\<close> and leaves the exit code as it was; a run
  of one or more such linters, and no other, ends with status \<open>error\<close> and exit code 0.
\<close>

theorem negative_code_is_error_with_exit_code_unchanged:
  "(status l \<noteq> ''success'' \<and> return_code l < 0 \<longrightarrow>
      self_status (update_status self l) = ''error''
      \<and> self_return_code (update_status self l) = self_return_code self)
   \<and> (ls \<noteq> [] \<and> (\<forall>l \<in> set ls. status l \<noteq> ''success'' \<and> return_code l < 0) \<longrightarrow>
      self_status (update_main_status (new_megalinter ws validate_all fail_if_updated is_cli ls))
        = ''error''
      \<and> self_return_code
          (update_main_status (new_megalinter ws validate_all fail_if_updated is_cli ls)) = 0)"
proof (intro conjI impI)
  assume "status l \<noteq> ''success'' \<and> return_code l < 0"
  then show "self_status (update_status self l) = ''error''"
    and "self_return_code (update_status self l) = self_return_code self"
    by (simp_all add: update_status_status update_status_return_code)
next
  assume a: "ls \<noteq> [] \<and> (\<forall>l \<in> set ls. status l \<noteq> ''success'' \<and> return_code l < 0)"
  then obtain l where "l \<in> set ls" by (cases ls) auto
  with a have "\<exists>l \<in> set ls. status l \<noteq> ''success'' \<and> return_code l \<noteq> 0" by force
  then show "self_status
      (update_main_status (new_megalinter ws validate_all fail_if_updated is_cli ls)) = ''error''"
    by (simp only: update_main_status_status if_True)
  from a have "\<forall>l \<in> set ls. \<not> 0 < return_code l" by force
  then show "self_return_code
      (update_main_status (new_megalinter ws validate_all fail_if_updated is_cli ls)) = 0"
    by (simp only: update_main_status_return_code last_code_where_none)
qed

text \<open>Claim C10 at a linter killed by signal 9 (return code -9), alone in the run.\<close>

theorem negative_code_is_error_with_exit_code_unchanged_witness:
  "self_status (update_status (new_megalinter ''/tmp/lint'' True False True [])
      \<lparr>name = ''PYTHON_BLACK'', descriptor_id = ''PYTHON'', is_active = True,
       apply_fixes = False, lint_all_files = False, files = [''a.py''],
       status = ''error'', return_code = - 9, number_fixed = 0\<rparr>) = ''error''
   \<and> self_return_code (update_status (new_megalinter ''/tmp/lint'' True False True [])
      \<lparr>name = ''PYTHON_BLACK'', descriptor_id = ''PYTHON'', is_active = True,
       apply_fixes = False, lint_all_files = False, files = [''a.py''],
       status = ''error'', return_code = - 9, number_fixed = 0\<rparr>) = 0
   \<and> self_status (update_main_status (new_megalinter ''/tmp/lint'' True False True
      [\<lparr>name = ''PYTHON_BLACK'', descriptor_id = ''PYTHON'', is_active = True,
        apply_fixes = False, lint_all_files = False, files = [''a.py''],
        status = ''error'', return_code = - 9, number_fixed = 0\<rparr>])) = ''error''
   \<and> self_return_code (update_main_status (new_megalinter ''/tmp/lint'' True False True
      [\<lparr>name = ''PYTHON_BLACK'', descriptor_id = ''PYTHON'', is_active = True,
        apply_fixes = False, lint_all_files = False, files = [''a.py''],
        status = ''error'', return_code = - 9, number_fixed = 0\<rparr>])) = 0"
  using negative_code_is_error_with_exit_code_unchanged
    [of "\<lparr>name = ''PYTHON_BLACK'', descriptor_id = ''PYTHON'', is_active = True,
       apply_fixes = False, lint_all_files = False, files = [''a.py''],
       status = ''error'', return_code = - 9, number_fixed = 0\<rparr>"
       "new_megalinter ''/tmp/lint'' True False True []"
       "[\<lparr>name = ''PYTHON_BLACK'', descriptor_id = ''PYTHON'', is_active = True,
        apply_fixes = False, lint_all_files = False, files = [''a.py''],
        status = ''error'', return_code = - 9, number_fixed = 0\<rparr>]"
       "''/tmp/lint''" True False True]
  by simp


section \<open>The mutated-sources policy\<close>

text \<open>
  Counterexample to claim C9 as stated: one linter fixed two files and ended in error, the
  policy \<^verbatim>\<open>FAIL_IF_UPDATED_SOURCES\<close> is enabled, the run is a \<^verbatim>\<open>cli\<close> run with
  \<^verbatim>\<open>DISABLE_ERRORS=true\<close>: the flag is set, the policy is on, and the process leaves with
  \<^verbatim>\<open>sys.exit(0)\<close>. With the overall status \<open>error\<close>, \<^verbatim>\<open>check_results\<close> never calls
  \<^verbatim>\<open>check_updated_sources_failure\<close>.
\<close>

theorem updated_sources_policy_skipped_on_error:
  "has_updated_sources (update_main_status (new_megalinter ''/tmp/lint'' True True True
      [\<lparr>name = ''PYTHON_BLACK'', descriptor_id = ''PYTHON'', is_active = True,
        apply_fixes = True, lint_all_files = False, files = [''a.py'', ''b.py''],
        status = ''error'', return_code = 1, number_fixed = 2\<rparr>])) = 1
   \<and> fail_if_updated_sources (update_main_status (new_megalinter ''/tmp/lint'' True True True
      [\<lparr>name = ''PYTHON_BLACK'', descriptor_id = ''PYTHON'', is_active = True,
        apply_fixes = True, lint_all_files = False, files = [''a.py'', ''b.py''],
        status = ''error'', return_code = 1, number_fixed = 2\<rparr>]))
   \<and> check_results True (update_main_status (new_megalinter ''/tmp/lint'' True True True
      [\<lparr>name = ''PYTHON_BLACK'', descriptor_id = ''PYTHON'', is_active = True,
        apply_fixes = True, lint_all_files = False, files = [''a.py'', ''b.py''],
        status = ''error'', return_code = 1, number_fixed = 2\<rparr>])) = Some 0"
  by (simp add: check_results_def update_main_status_status update_main_status_updated)

text \<open>
  Claim C9, amended: for every run in which at least one linter fixed one or more files and
  the fail-on-mutated-sources policy is enabled, \<^verbatim>\<open>check_results\<close> ends the process with
  \<^verbatim>\<open>sys.exit(1)\<close> whenever the overall status is \<open>success\<close> or \<open>warning\<close> (no linter has
  both a status other than \<open>success\<close> and a non-zero return code), also when every linter
  reported \<open>success\<close>. When the overall status is \<open>error\<close> the policy is not looked at:
  a \<^verbatim>\<open>cli\<close> run exits with 0 under \<^verbatim>\<open>DISABLE_ERRORS\<close> and with the exit code of the loop
  otherwise, and any other run returns to its caller.
\<close>

theorem updated_sources_policy:
  assumes "\<exists>l \<in> set ls. 0 < number_fixed l"
  shows "check_results DISABLE_ERRORS
           (update_main_status (new_megalinter ws validate_all True is_cli ls)) =
         (if \<exists>l \<in> set ls. status l \<noteq> ''success'' \<and> return_code l \<noteq> 0
          then (if is_cli
                then Some (if DISABLE_ERRORS then 0
                           else last_code_where (\<lambda>l. 0 < return_code l) ls)
                else None)
          else Some 1)"
proof -
  let ?s = "update_main_status (new_megalinter ws validate_all True is_cli ls)"
  have upd: "has_updated_sources ?s = 1"
    using assms by (simp only: update_main_status_updated if_True)
  have fail: "fail_if_updated_sources ?s"
    by simp
  show ?thesis
  proof (cases "\<exists>l \<in> set ls. status l \<noteq> ''success'' \<and> return_code l \<noteq> 0")
    case True
    then have "self_status ?s = ''error''"
      by (simp only: update_main_status_status if_True)
    then have "check_results DISABLE_ERRORS ?s =
        (if is_cli then Some (if DISABLE_ERRORS then 0
           else last_code_where (\<lambda>l. 0 < return_code l) ls) else None)"
      by (simp add: check_results_def update_main_status_return_code)
    with True show ?thesis by (simp only: if_True)
  next
    case False
    then have "self_status ?s = ''success'' \<or> self_status ?s = ''warning''"
      by (simp only: update_main_status_status if_False split: if_splits) simp
    then have "check_results DISABLE_ERRORS ?s = Some 1"
      using upd fail by (auto simp add: check_results_def check_updated_sources_failure_def)
    with False show ?thesis by (simp only: if_False)
  qed
qed

text \<open>
  Claim C9, amended, at the specification's scenario: two linters report \<open>success\<close>, one
  of them fixed two files, the policy is enabled.
\<close>

theorem updated_sources_policy_witness:
  "check_results False (update_main_status (new_megalinter ''/tmp/lint'' True True True
      [\<lparr>name = ''PYTHON_BLACK'', descriptor_id = ''PYTHON'', is_active = True,
        apply_fixes = True, lint_all_files = False, files = [''a.py'', ''b.py''],
        status = ''success'', return_code = 0, number_fixed = 2\<rparr>,
       \<lparr>name = ''PYTHON_FLAKE8'', descriptor_id = ''PYTHON'', is_active = True,
        apply_fixes = False, lint_all_files = False, files = [''a.py'', ''b.py''],
        status = ''success'', return_code = 0, number_fixed = 0\<rparr>])) = Some 1"
  using updated_sources_policy [of
      "[\<lparr>name = ''PYTHON_BLACK'', descriptor_id = ''PYTHON'', is_active = True,
        apply_fixes = True, lint_all_files = False, files = [''a.py'', ''b.py''],
        status = ''success'', return_code = 0, number_fixed = 2\<rparr>,
       \<lparr>name = ''PYTHON_FLAKE8'', descriptor_id = ''PYTHON'', is_active = True,
        apply_fixes = False, lint_all_files = False, files = [''a.py'', ''b.py''],
        status = ''success'', return_code = 0, number_fixed = 0\<rparr>]"
      False "''/tmp/lint''" True True]
  by simp

section \<open>Workspace resolution\<close>

text \<open>
  Every branch of \<^verbatim>\<open>get_workspace\<close> but one returns the directory it has tested. The third
  branch of the chain tests \<open>DEFAULT_DOCKER_WORKSPACE_DIR + sep + default_workspace\<close> and
  returns that path with \<open>default_workspace\<close> in front of it.
\<close>

lemma get_workspace_isdir:
  assumes "get_workspace isdir D arg_input default_workspace github_workspace = Inr p"
    and "\<not> docker_run_branch isdir D arg_input default_workspace"
  shows "isdir p"
  using assms
  by (auto simp add: get_workspace_def docker_run_branch_def
        split: option.splits if_splits)

lemma get_workspace_docker_run_branch:
  assumes "docker_run_branch isdir D arg_input default_workspace"
  shows "get_workspace isdir D arg_input default_workspace github_workspace
           = Inr (default_workspace @ D @ sep @ default_workspace)"
  using assms by (simp add: get_workspace_def docker_run_branch_def)

lemma get_workspace_error:
  assumes "get_workspace isdir D arg_input default_workspace github_workspace = Inl e"
  shows "(case arg_input of
            None \<Rightarrow> e = FileNotFoundError
              (''[Context] Unable to find a workspace to lint '' @ [CHR 0x0A]
               @ ''DEFAULT_WORKSPACE: '' @ default_workspace @ [CHR 0x0A]
               @ ''GITHUB_WORKSPACE: '' @ github_workspace)
          | Some inp \<Rightarrow> e = AssertionError (''--input directory not found at '' @ D @ ''/'' @ inp))"
  using assms
  by (auto simp add: get_workspace_def split: option.splits if_splits)

text \<open>
  Claim C1 fails on the code: with no input argument, \<open>DEFAULT_WORKSPACE = myrepo\<close>, an empty
  \<open>GITHUB_WORKSPACE\<close> and a file system whose only directory is \<open>/tmp/lint/myrepo\<close>,
  \<^verbatim>\<open>get_workspace\<close> returns \<open>myrepo/tmp/lint/myrepo\<close>, which is not a directory.
\<close>

theorem get_workspace_returns_untested_path:
  "get_workspace ((=) ''/tmp/lint/myrepo'') ''/tmp/lint'' None ''myrepo'' ''''
     = Inr ''myrepo/tmp/lint/myrepo''
   \<and> \<not> ((=) ''/tmp/lint/myrepo'') ''myrepo/tmp/lint/myrepo''"
  by (simp add: get_workspace_def sep_def)

section \<open>File discovery\<close>

text \<open>
  Claim C4: in incremental mode (no explicit file list, \<^verbatim>\<open>validate_all_code_base\<close> false),
  when the version-control layer raises \<open>InvalidGitRepositoryError\<close>, \<^verbatim>\<open>collect_files\<close>
  succeeds; in the state it returns \<^verbatim>\<open>validate_all_code_base\<close> is true; the sorted file
  list it filters and hands to the linters is the one of the full scan; and list, flag and
  returned state are those of a run that started in full-scan mode.
\<close>

theorem not_a_repository_falls_back_to_full_scan:
  assumes "files_to_lint = []" and "\<not> validate_all_code_base self"
  shows "sorted_all_files files_to_lint isfile (Inl InvalidGitRepositoryError)
           excluded_directories root self
         = Inr (sorted_list_of_set (set (list_files_all excluded_directories root self)),
                self\<lparr>validate_all_code_base := True\<rparr>)
     \<and> sorted_all_files files_to_lint isfile git_diff excluded_directories root
           (self\<lparr>validate_all_code_base := True\<rparr>)
         = Inr (sorted_list_of_set (set (list_files_all excluded_directories root self)),
                self\<lparr>validate_all_code_base := True\<rparr>)
     \<and> (\<exists>self'.
           collect_files files_to_lint isfile (Inl InvalidGitRepositoryError)
             excluded_directories root filter_files linter_collect_files self = Inr self'
         \<and> validate_all_code_base self'
         \<and> self' = self
             \<lparr>validate_all_code_base := True,
              linters :=
                map (collect_linter_files linter_collect_files
                       (filter_files (sorted_list_of_set
                          (set (list_files_all excluded_directories root self)))))
                  (linters self)\<rparr>
         \<and> collect_files files_to_lint isfile git_diff
             excluded_directories root filter_files linter_collect_files
             (self\<lparr>validate_all_code_base := True\<rparr>) = Inr self')"
  using assms
  by (simp add: collect_files_def sorted_all_files_def list_all_files_def
        list_files_git_diff_def list_files_all_def)

text \<open>
  Claim C4 on a workspace with one file, one excluded directory and one sub-directory, and
  one linter that takes every file: the fallback gives the two files of the full scan, and
  \<^verbatim>\<open>collect_files\<close> returns a state with the flag set and the linter holding the two
  files; a run that starts in full-scan mode gives the same list and the same state.
\<close>

theorem not_a_repository_falls_back_to_full_scan_witness:
  "sorted_all_files [] (\<lambda>path. True) (Inl InvalidGitRepositoryError) [''node_modules'']
      [File ''b.py'', Dir ''node_modules'' [File ''x.js''], Dir ''src'' [File ''a.py'']]
      (new_megalinter ''/tmp/lint'' False False True
        [\<lparr>name = ''PYTHON_BLACK'', descriptor_id = ''PYTHON'', is_active = True,
          apply_fixes = True, lint_all_files = False, files = [],
          status = ''success'', return_code = 0, number_fixed = 0\<rparr>])
    = Inr ([''/tmp/lint/b.py'', ''/tmp/lint/src/a.py''],
           new_megalinter ''/tmp/lint'' True False True
        [\<lparr>name = ''PYTHON_BLACK'', descriptor_id = ''PYTHON'', is_active = True,
          apply_fixes = True, lint_all_files = False, files = [],
          status = ''success'', return_code = 0, number_fixed = 0\<rparr>])
   \<and> collect_files [] (\<lambda>path. True) (Inl InvalidGitRepositoryError) [''node_modules'']
      [File ''b.py'', Dir ''node_modules'' [File ''x.js''], Dir ''src'' [File ''a.py'']]
      (\<lambda>fs. fs) (\<lambda>l fs. l\<lparr>files := fs\<rparr>)
      (new_megalinter ''/tmp/lint'' False False True
        [\<lparr>name = ''PYTHON_BLACK'', descriptor_id = ''PYTHON'', is_active = True,
          apply_fixes = True, lint_all_files = False, files = [],
          status = ''success'', return_code = 0, number_fixed = 0\<rparr>])
    = Inr (new_megalinter ''/tmp/lint'' True False True
        [\<lparr>name = ''PYTHON_BLACK'', descriptor_id = ''PYTHON'', is_active = True,
          apply_fixes = True, lint_all_files = False,
          files = [''/tmp/lint/b.py'', ''/tmp/lint/src/a.py''],
          status = ''success'', return_code = 0, number_fixed = 0\<rparr>])
   \<and> collect_files [] (\<lambda>path. True) (Inr [''b.py'']) [''node_modules'']
      [File ''b.py'', Dir ''node_modules'' [File ''x.js''], Dir ''src'' [File ''a.py'']]
      (\<lambda>fs. fs) (\<lambda>l fs. l\<lparr>files := fs\<rparr>)
      (new_megalinter ''/tmp/lint'' True False True
        [\<lparr>name = ''PYTHON_BLACK'', descriptor_id = ''PYTHON'', is_active = True,
          apply_fixes = True, lint_all_files = False, files = [],
          status = ''success'', return_code = 0, number_fixed = 0\<rparr>])
    = Inr (new_megalinter ''/tmp/lint'' True False True
        [\<lparr>name = ''PYTHON_BLACK'', descriptor_id = ''PYTHON'', is_active = True,
          apply_fixes = True, lint_all_files = False,
          files = [''/tmp/lint/b.py'', ''/tmp/lint/src/a.py''],
          status = ''success'', return_code = 0, number_fixed = 0\<rparr>])
   \<and> validate_all_code_base (new_megalinter ''/tmp/lint'' True False True
        [\<lparr>name = ''PYTHON_BLACK'', descriptor_id = ''PYTHON'', is_active = True,
          apply_fixes = True, lint_all_files = False,
          files = [''/tmp/lint/b.py'', ''/tmp/lint/src/a.py''],
          status = ''success'', return_code = 0, number_fixed = 0\<rparr>])"
proof -
  let ?L = "\<lparr>name = ''PYTHON_BLACK'', descriptor_id = ''PYTHON'', is_active = True,
          apply_fixes = True, lint_all_files = False, files = [],
          status = ''success'', return_code = 0, number_fixed = 0\<rparr>"
  let ?L' = "\<lparr>name = ''PYTHON_BLACK'', descriptor_id = ''PYTHON'', is_active = True,
          apply_fixes = True, lint_all_files = False,
          files = [''/tmp/lint/b.py'', ''/tmp/lint/src/a.py''],
          status = ''success'', return_code = 0, number_fixed = 0\<rparr>"
  let ?self = "new_megalinter ''/tmp/lint'' False False True [?L]"
  let ?root = "[File ''b.py'', Dir ''node_modules'' [File ''x.js''], Dir ''src'' [File ''a.py'']]"
  let ?lcf = "\<lambda>(l::linter) fs. l\<lparr>files := fs\<rparr>"
  have mode: "\<not> validate_all_code_base ?self" by simp
  have upd: "?self\<lparr>validate_all_code_base := True\<rparr>
      = new_megalinter ''/tmp/lint'' True False True [?L]"
    by (simp add: new_megalinter_def)
  have files: "list_files_all [''node_modules''] ?root ?self
      = [''/tmp/lint/b.py'', ''/tmp/lint/b.py'', ''/tmp/lint/src/a.py'']"
    by (simp add: list_files_all_def path_join_def)
  have "sorted_list_of_set (set [''/tmp/lint/b.py'', ''/tmp/lint/b.py'', ''/tmp/lint/src/a.py''])
      = [''/tmp/lint/b.py'', ''/tmp/lint/src/a.py'']"
    by code_simp
  with files have scan: "sorted_list_of_set (set (list_files_all [''node_modules''] ?root ?self))
      = [''/tmp/lint/b.py'', ''/tmp/lint/src/a.py'']"
    by (simp only:)
  have state: "?self
             \<lparr>validate_all_code_base := True,
              linters :=
                map (collect_linter_files ?lcf
                       ((\<lambda>fs. fs) [''/tmp/lint/b.py'', ''/tmp/lint/src/a.py'']))
                  (linters ?self)\<rparr>
      = new_megalinter ''/tmp/lint'' True False True [?L']"
    by (simp add: new_megalinter_def collect_linter_files_def)
  note inst = not_a_repository_falls_back_to_full_scan [OF refl mode,
        of "\<lambda>path. True" "[''node_modules'']" ?root "Inr [''b.py'']" "\<lambda>fs. fs" ?lcf]
  from inst have list: "sorted_all_files [] (\<lambda>path. True) (Inl InvalidGitRepositoryError)
        [''node_modules''] ?root ?self
      = Inr ([''/tmp/lint/b.py'', ''/tmp/lint/src/a.py''],
             new_megalinter ''/tmp/lint'' True False True [?L])"
    by (simp only: upd scan)
  from inst obtain self' where
      fallback: "collect_files [] (\<lambda>path. True) (Inl InvalidGitRepositoryError)
        [''node_modules''] ?root (\<lambda>fs. fs) ?lcf ?self = Inr self'"
    and flag: "validate_all_code_base self'"
    and eq: "self' = ?self
             \<lparr>validate_all_code_base := True,
              linters :=
                map (collect_linter_files ?lcf
                       ((\<lambda>fs. fs) (sorted_list_of_set
                          (set (list_files_all [''node_modules''] ?root ?self)))))
                  (linters ?self)\<rparr>"
    and full: "collect_files [] (\<lambda>path. True) (Inr [''b.py''])
        [''node_modules''] ?root (\<lambda>fs. fs) ?lcf
        (?self\<lparr>validate_all_code_base := True\<rparr>) = Inr self'"
    by blast
  from eq have self': "self' = new_megalinter ''/tmp/lint'' True False True [?L']"
    by (simp only: scan state)
  from list fallback full flag show ?thesis
    by (simp only: self' upd simp_thms)
qed

text \<open>
  Claim C7: when the discovery of files succeeds, \<^verbatim>\<open>collect_files\<close> succeeds, keeps the
  list of linters in place, and every linter is what \<^verbatim>\<open>Linter.collect_files\<close> made of it,
  with its activation flag set to false if its files are empty and it does not lint all
  files, and with its activation flag untouched otherwise.
\<close>

theorem empty_file_set_deactivates:
  assumes "sorted_all_files files_to_lint isfile git_diff excluded_directories root self
             = Inr (all_files, self1)"
  shows "\<exists>self'. collect_files files_to_lint isfile git_diff excluded_directories root
               filter_files linter_collect_files self = Inr self'
           \<and> length (linters self') = length (linters self)
           \<and> (\<forall>i < length (linters self).
                 linters self' ! i =
                   (if files (linter_collect_files (linters self ! i) (filter_files all_files)) = []
                       \<and> \<not> lint_all_files
                            (linter_collect_files (linters self ! i) (filter_files all_files))
                    then (linter_collect_files (linters self ! i) (filter_files all_files))
                           \<lparr>is_active := False\<rparr>
                    else linter_collect_files (linters self ! i) (filter_files all_files)))"
proof -
  have "linters self1 = linters self"
    using assms
    by (auto simp add: sorted_all_files_def list_all_files_def
          split: sum.splits if_splits error.splits prod.splits)
  then show ?thesis
    using assms by (simp add: collect_files_def collect_linter_files_def Let_def)
qed

text \<open>
  Claim C7 on three linters and one Python file: the Python linter keeps its flag, the JSON
  linter has no file and is deactivated, the repository linter has no file, lints all
  files and keeps its flag.
\<close>

theorem empty_file_set_deactivates_witness:
  "collect_files [''a.py''] (\<lambda>path. True) (Inl GitCommandError) [] [] (\<lambda>fs. fs)
      (\<lambda>l fs. l\<lparr>files := (if descriptor_id l = ''PYTHON'' then fs else [])\<rparr>)
      (new_megalinter ''/tmp/lint'' True False True
        [\<lparr>name = ''PYTHON_BLACK'', descriptor_id = ''PYTHON'', is_active = True,
          apply_fixes = True, lint_all_files = False, files = [],
          status = ''success'', return_code = 0, number_fixed = 0\<rparr>,
         \<lparr>name = ''JSON_JSONLINT'', descriptor_id = ''JSON'', is_active = True,
          apply_fixes = False, lint_all_files = False, files = [],
          status = ''success'', return_code = 0, number_fixed = 0\<rparr>,
         \<lparr>name = ''REPOSITORY_GITLEAKS'', descriptor_id = ''REPOSITORY'', is_active = True,
          apply_fixes = False, lint_all_files = True, files = [],
          status = ''success'', return_code = 0, number_fixed = 0\<rparr>])
    = Inr (new_megalinter ''/tmp/lint'' True False True
        [\<lparr>name = ''PYTHON_BLACK'', descriptor_id = ''PYTHON'', is_active = True,
          apply_fixes = True, lint_all_files = False, files = [''/tmp/lint/a.py''],
          status = ''success'', return_code = 0, number_fixed = 0\<rparr>,
         \<lparr>name = ''JSON_JSONLINT'', descriptor_id = ''JSON'', is_active = False,
          apply_fixes = False, lint_all_files = False, files = [],
          status = ''success'', return_code = 0, number_fixed = 0\<rparr>,
         \<lparr>name = ''REPOSITORY_GITLEAKS'', descriptor_id = ''REPOSITORY'', is_active = True,
          apply_fixes = False, lint_all_files = True, files = [],
          status = ''success'', return_code = 0, number_fixed = 0\<rparr>])"
proof -
  let ?ls = "[\<lparr>name = ''PYTHON_BLACK'', descriptor_id = ''PYTHON'', is_active = True,
          apply_fixes = True, lint_all_files = False, files = [],
          status = ''success'', return_code = 0, number_fixed = 0\<rparr>,
         \<lparr>name = ''JSON_JSONLINT'', descriptor_id = ''JSON'', is_active = True,
          apply_fixes = False, lint_all_files = False, files = [],
          status = ''success'', return_code = 0, number_fixed = 0\<rparr>,
         \<lparr>name = ''REPOSITORY_GITLEAKS'', descriptor_id = ''REPOSITORY'', is_active = True,
          apply_fixes = False, lint_all_files = True, files = [],
          status = ''success'', return_code = 0, number_fixed = 0\<rparr>]"
  let ?self = "new_megalinter ''/tmp/lint'' True False True ?ls"
  let ?lcf = "\<lambda>l fs. l\<lparr>files := (if descriptor_id l = ''PYTHON'' then fs else [])\<rparr>"
  have found: "sorted_all_files [''a.py''] (\<lambda>path. True) (Inl GitCommandError) [] [] ?self
      = Inr ([''/tmp/lint/a.py''], ?self)"
    by (simp add: sorted_all_files_def list_all_files_def sep_def)
  from empty_file_set_deactivates [OF found, of "\<lambda>fs. fs" ?lcf]
  obtain self' where res: "collect_files [''a.py''] (\<lambda>path. True) (Inl GitCommandError) [] []
        (\<lambda>fs. fs) ?lcf ?self = Inr self'"
    and len: "length (linters self') = length (linters ?self)"
    and each: "\<forall>i < length (linters ?self).
                 linters self' ! i =
                   (if files (?lcf (linters ?self ! i) [''/tmp/lint/a.py'']) = []
                       \<and> \<not> lint_all_files (?lcf (linters ?self ! i) [''/tmp/lint/a.py''])
                    then (?lcf (linters ?self ! i) [''/tmp/lint/a.py''])\<lparr>is_active := False\<rparr>
                    else ?lcf (linters ?self ! i) [''/tmp/lint/a.py''])"
    by blast
  have rest: "self' = ?self\<lparr>linters := linters self'\<rparr>"
    using res found by (auto simp add: collect_files_def)
  have l3: "length (linters self') = 3" using len by simp
  have e0: "linters self' ! 0 = \<lparr>name = ''PYTHON_BLACK'', descriptor_id = ''PYTHON'',
          is_active = True, apply_fixes = True, lint_all_files = False,
          files = [''/tmp/lint/a.py''], status = ''success'', return_code = 0,
          number_fixed = 0\<rparr>"
    using each by simp
  have e1: "linters self' ! 1 = \<lparr>name = ''JSON_JSONLINT'', descriptor_id = ''JSON'',
          is_active = False, apply_fixes = False, lint_all_files = False, files = [],
          status = ''success'', return_code = 0, number_fixed = 0\<rparr>"
    using each by simp
  have e2: "linters self' ! 2 = \<lparr>name = ''REPOSITORY_GITLEAKS'',
          descriptor_id = ''REPOSITORY'', is_active = True, apply_fixes = False,
          lint_all_files = True, files = [], status = ''success'', return_code = 0,
          number_fixed = 0\<rparr>"
    using each by simp
  have "linters self' = [linters self' ! 0, linters self' ! 1, linters self' ! 2]"
    using l3 by (auto simp add: list_eq_iff_nth_eq nth_Cons' numeral_3_eq_3 numeral_2_eq_2 less_Suc_eq)
  then have "linters self' = [\<lparr>name = ''PYTHON_BLACK'', descriptor_id = ''PYTHON'',
          is_active = True, apply_fixes = True, lint_all_files = False,
          files = [''/tmp/lint/a.py''], status = ''success'', return_code = 0,
          number_fixed = 0\<rparr>,
        \<lparr>name = ''JSON_JSONLINT'', descriptor_id = ''JSON'',
          is_active = False, apply_fixes = False, lint_all_files = False, files = [],
          status = ''success'', return_code = 0, number_fixed = 0\<rparr>,
        \<lparr>name = ''REPOSITORY_GITLEAKS'',
          descriptor_id = ''REPOSITORY'', is_active = True, apply_fixes = False,
          lint_all_files = True, files = [], status = ''success'', return_code = 0,
          number_fixed = 0\<rparr>]"
    by (simp only: e0 e1 e2)
  then show ?thesis using res rest by (simp add: new_megalinter_def)
qed

section \<open>The groups of the parallel mode\<close>

lemma select_active_foldl:
  "foldl (\<lambda>(active_linters, linters_do_fixes) linter.
              if is_active linter
              then (active_linters @ [linter],
                    if apply_fixes linter then True else linters_do_fixes)
              else (active_linters, linters_do_fixes))
       (acc, b) ls
   = (acc @ filter is_active ls, b \<or> (\<exists>l \<in> set (filter is_active ls). apply_fixes l))"
  by (induction ls arbitrary: acc b) auto

lemma select_active_eq:
  "select_active ls
     = (filter is_active ls, \<exists>l \<in> set (filter is_active ls). apply_fixes l)"
  by (simp add: select_active_def select_active_foldl)

lemma first_seen_Nil [simp]: "first_seen [] = []"
  by (simp add: first_seen_def)

lemma first_seen_snoc:
  "first_seen (xs @ [x]) = (if x \<in> set xs then first_seen xs else first_seen xs @ [x])"
  by (simp add: first_seen_def)

lemma set_first_seen [simp]: "set (first_seen xs) = set xs"
  by (simp add: first_seen_def)

lemma distinct_first_seen [simp]: "distinct (first_seen xs)"
  by (simp add: first_seen_def)

lemma map_of_keyed:
  "map_of (map (\<lambda>d. (d, f d)) ks) k = (if k \<in> set ks then Some (f k) else None)"
  by (induction ks) auto

lemma update_keyed:
  "distinct ks \<Longrightarrow>
   AList.update k v (map (\<lambda>d. (d, f d)) ks) =
     (if k \<in> set ks then map (\<lambda>d. (d, if d = k then v else f d)) ks
      else map (\<lambda>d. (d, f d)) ks @ [(k, v)])"
proof (induction ks)
  case Nil
  show ?case by simp
next
  case (Cons d ks)
  show ?case
  proof (cases "d = k")
    case True
    with Cons.prems have "k \<notin> set ks" by simp
    then have "map (\<lambda>d. (d, if d = k then v else f d)) ks = map (\<lambda>d. (d, f d)) ks"
      by (intro map_cong) auto
    with True show ?thesis by simp
  next
    case False
    with Cons show ?thesis by simp
  qed
qed

lemma foldl_add_to_descriptor:
  "foldl add_to_descriptor [] als =
     map (\<lambda>d. (d, filter (\<lambda>l. descriptor_id l = d) als))
       (first_seen (map descriptor_id als))"
proof (induction als rule: rev_induct)
  case Nil
  show ?case by simp
next
  case (snoc l als)
  let ?ks = "first_seen (map descriptor_id als)"
  let ?f = "\<lambda>d. filter (\<lambda>l. descriptor_id l = d) als"
  let ?k = "descriptor_id l"
  have step: "foldl add_to_descriptor [] (als @ [l])
      = add_to_descriptor (map (\<lambda>d. (d, ?f d)) ?ks) l"
    using snoc.IH by simp
  show ?case
  proof (cases "?k \<in> set (map descriptor_id als)")
    case True
    then have "add_to_descriptor (map (\<lambda>d. (d, ?f d)) ?ks) l
        = map (\<lambda>d. (d, if d = ?k then ?f ?k @ [l] else ?f d)) ?ks"
      by (simp add: add_to_descriptor_def map_of_keyed update_keyed)
    also have "\<dots> = map (\<lambda>d. (d, filter (\<lambda>l. descriptor_id l = d) (als @ [l]))) ?ks"
      by (intro map_cong) auto
    finally show ?thesis
      using True step by (simp add: first_seen_snoc)
  next
    case False
    have none: "?f ?k = []"
    proof (rule ccontr)
      assume "?f ?k \<noteq> []"
      then obtain x where "x \<in> set (?f ?k)" by (cases "?f ?k") auto
      then have x: "x \<in> set als" and k: "descriptor_id x = ?k" by simp_all
      from x have "descriptor_id x \<in> descriptor_id ` set als" by (rule imageI)
      then have "?k \<in> set (map descriptor_id als)" by (simp only: k set_map)
      with False show False by contradiction
    qed
    from False have app: "add_to_descriptor (map (\<lambda>d. (d, ?f d)) ?ks) l
        = map (\<lambda>d. (d, ?f d)) ?ks @ [(?k, [l])]"
      by (simp add: add_to_descriptor_def map_of_keyed update_keyed)
    have old: "map (\<lambda>d. (d, filter (\<lambda>l. descriptor_id l = d) (als @ [l]))) ?ks
        = map (\<lambda>d. (d, ?f d)) ?ks"
      using False by (intro map_cong) auto
    have new: "filter (\<lambda>x. descriptor_id x = ?k) (als @ [l]) = [l]"
      using none by simp
    have "map (\<lambda>d. (d, filter (\<lambda>l. descriptor_id l = d) (als @ [l])))
            (first_seen (map descriptor_id (als @ [l])))
        = map (\<lambda>d. (d, filter (\<lambda>l. descriptor_id l = d) (als @ [l]))) (?ks @ [?k])"
      using False by (simp add: first_seen_snoc)
    also have "\<dots> = map (\<lambda>d. (d, ?f d)) ?ks @ [(?k, [l])]"
      by (simp only: map_append old new list.map)
    finally show ?thesis
      by (simp only: step app)
  qed
qed

lemma linter_groups_eq:
  "linter_groups als fixes =
     (if fixes
      then map (\<lambda>d. filter (\<lambda>l. descriptor_id l = d) als) (first_seen (map descriptor_id als))
      else map (\<lambda>l. [l]) als)"
  by (simp add: linter_groups_def foldl_add_to_descriptor comp_def)

lemma parallel_arguments_flag:
  "snd (parallel_arguments check_active_linters_match_flavor ls)
     = (\<exists>l \<in> set (filter is_active ls). apply_fixes l)"
  by (simp add: parallel_arguments_def select_active_eq split: prod.splits)

lemma parallel_arguments_unchanged:
  assumes "check_active_linters_match_flavor (filter is_active ls)
             = (matches, filter is_active ls)"
  shows "parallel_arguments check_active_linters_match_flavor ls = select_active ls"
  using assms
  by (simp add: parallel_arguments_def select_active_eq after_flavor_check_def)

text \<open>
  A flavor check that deactivates the only linter that applies fixes: \<^verbatim>\<open>run\<close> calls
  \<^verbatim>\<open>process_linters_parallel\<close> with the two remaining linters and the flag it computed
  before the check.
\<close>

lemma parallel_arguments_stale_flag:
  "parallel_arguments
      (\<lambda>active_linters.
         (False, map (\<lambda>linter. if name linter = ''PYTHON_BLACK''
                                then linter\<lparr>is_active := False\<rparr> else linter)
                   active_linters))
      [\<lparr>name = ''PYTHON_BLACK'', descriptor_id = ''PYTHON'', is_active = True,
        apply_fixes = True, lint_all_files = False, files = [''a.py''],
        status = ''success'', return_code = 0, number_fixed = 0\<rparr>,
       \<lparr>name = ''PYTHON_PYLINT'', descriptor_id = ''PYTHON'', is_active = True,
        apply_fixes = False, lint_all_files = False, files = [''a.py''],
        status = ''success'', return_code = 0, number_fixed = 0\<rparr>,
       \<lparr>name = ''PYTHON_FLAKE8'', descriptor_id = ''PYTHON'', is_active = True,
        apply_fixes = False, lint_all_files = False, files = [''a.py''],
        status = ''success'', return_code = 0, number_fixed = 0\<rparr>]
    = ([\<lparr>name = ''PYTHON_PYLINT'', descriptor_id = ''PYTHON'', is_active = True,
         apply_fixes = False, lint_all_files = False, files = [''a.py''],
         status = ''success'', return_code = 0, number_fixed = 0\<rparr>,
        \<lparr>name = ''PYTHON_FLAKE8'', descriptor_id = ''PYTHON'', is_active = True,
         apply_fixes = False, lint_all_files = False, files = [''a.py''],
         status = ''success'', return_code = 0, number_fixed = 0\<rparr>],
       True)"
  by (simp add: parallel_arguments_def select_active_def after_flavor_check_def)

text \<open>
  Counterexample to claim C5 as stated: the registry holds \<open>PYTHON_BLACK\<close>, which applies
  fixes, and \<open>PYTHON_PYLINT\<close> and \<open>PYTHON_FLAKE8\<close>, which do not; all three are active and
  share the descriptor \<open>PYTHON\<close>. The loop of lines 145--151 sets \<^verbatim>\<open>linters_do_fixes\<close>; the
  flavor check deactivates \<open>PYTHON_BLACK\<close> and returns \<^verbatim>\<open>False\<close>, so that lines 159--161
  leave the two other linters; with more than one linter left, \<^verbatim>\<open>process_linters_parallel\<close>
  is called with these two and the flag still true. No active linter applies fixes, and the
  two linters are in one group, not in the two groups of one linter that the claim states.
\<close>

theorem stale_fix_flag_groups_without_fixer:
  "select_active
      [\<lparr>name = ''PYTHON_BLACK'', descriptor_id = ''PYTHON'', is_active = True,
        apply_fixes = True, lint_all_files = False, files = [''a.py''],
        status = ''success'', return_code = 0, number_fixed = 0\<rparr>,
       \<lparr>name = ''PYTHON_PYLINT'', descriptor_id = ''PYTHON'', is_active = True,
        apply_fixes = False, lint_all_files = False, files = [''a.py''],
        status = ''success'', return_code = 0, number_fixed = 0\<rparr>,
       \<lparr>name = ''PYTHON_FLAKE8'', descriptor_id = ''PYTHON'', is_active = True,
        apply_fixes = False, lint_all_files = False, files = [''a.py''],
        status = ''success'', return_code = 0, number_fixed = 0\<rparr>]
    = ([\<lparr>name = ''PYTHON_BLACK'', descriptor_id = ''PYTHON'', is_active = True,
         apply_fixes = True, lint_all_files = False, files = [''a.py''],
         status = ''success'', return_code = 0, number_fixed = 0\<rparr>,
        \<lparr>name = ''PYTHON_PYLINT'', descriptor_id = ''PYTHON'', is_active = True,
         apply_fixes = False, lint_all_files = False, files = [''a.py''],
         status = ''success'', return_code = 0, number_fixed = 0\<rparr>,
        \<lparr>name = ''PYTHON_FLAKE8'', descriptor_id = ''PYTHON'', is_active = True,
         apply_fixes = False, lint_all_files = False, files = [''a.py''],
         status = ''success'', return_code = 0, number_fixed = 0\<rparr>],
       True)
   \<and> after_flavor_check False
      [\<lparr>name = ''PYTHON_BLACK'', descriptor_id = ''PYTHON'', is_active = False,
        apply_fixes = True, lint_all_files = False, files = [''a.py''],
        status = ''success'', return_code = 0, number_fixed = 0\<rparr>,
       \<lparr>name = ''PYTHON_PYLINT'', descriptor_id = ''PYTHON'', is_active = True,
        apply_fixes = False, lint_all_files = False, files = [''a.py''],
        status = ''success'', return_code = 0, number_fixed = 0\<rparr>,
       \<lparr>name = ''PYTHON_FLAKE8'', descriptor_id = ''PYTHON'', is_active = True,
        apply_fixes = False, lint_all_files = False, files = [''a.py''],
        status = ''success'', return_code = 0, number_fixed = 0\<rparr>]
    = [\<lparr>name = ''PYTHON_PYLINT'', descriptor_id = ''PYTHON'', is_active = True,
        apply_fixes = False, lint_all_files = False, files = [''a.py''],
        status = ''success'', return_code = 0, number_fixed = 0\<rparr>,
       \<lparr>name = ''PYTHON_FLAKE8'', descriptor_id = ''PYTHON'', is_active = True,
        apply_fixes = False, lint_all_files = False, files = [''a.py''],
        status = ''success'', return_code = 0, number_fixed = 0\<rparr>]
   \<and> linter_groups
      [\<lparr>name = ''PYTHON_PYLINT'', descriptor_id = ''PYTHON'', is_active = True,
        apply_fixes = False, lint_all_files = False, files = [''a.py''],
        status = ''success'', return_code = 0, number_fixed = 0\<rparr>,
       \<lparr>name = ''PYTHON_FLAKE8'', descriptor_id = ''PYTHON'', is_active = True,
        apply_fixes = False, lint_all_files = False, files = [''a.py''],
        status = ''success'', return_code = 0, number_fixed = 0\<rparr>] True
    = [[\<lparr>name = ''PYTHON_PYLINT'', descriptor_id = ''PYTHON'', is_active = True,
         apply_fixes = False, lint_all_files = False, files = [''a.py''],
         status = ''success'', return_code = 0, number_fixed = 0\<rparr>,
        \<lparr>name = ''PYTHON_FLAKE8'', descriptor_id = ''PYTHON'', is_active = True,
         apply_fixes = False, lint_all_files = False, files = [''a.py''],
         status = ''success'', return_code = 0, number_fixed = 0\<rparr>]]
   \<and> linter_groups
      [\<lparr>name = ''PYTHON_PYLINT'', descriptor_id = ''PYTHON'', is_active = True,
        apply_fixes = False, lint_all_files = False, files = [''a.py''],
        status = ''success'', return_code = 0, number_fixed = 0\<rparr>,
       \<lparr>name = ''PYTHON_FLAKE8'', descriptor_id = ''PYTHON'', is_active = True,
        apply_fixes = False, lint_all_files = False, files = [''a.py''],
        status = ''success'', return_code = 0, number_fixed = 0\<rparr>] True
    \<noteq> [[\<lparr>name = ''PYTHON_PYLINT'', descriptor_id = ''PYTHON'', is_active = True,
         apply_fixes = False, lint_all_files = False, files = [''a.py''],
         status = ''success'', return_code = 0, number_fixed = 0\<rparr>],
        [\<lparr>name = ''PYTHON_FLAKE8'', descriptor_id = ''PYTHON'', is_active = True,
         apply_fixes = False, lint_all_files = False, files = [''a.py''],
         status = ''success'', return_code = 0, number_fixed = 0\<rparr>]]"
  by (simp add: select_active_def after_flavor_check_def linter_groups_def
        add_to_descriptor_def)

text \<open>
  Claim C5, amended: for every list of active linters and every value of the flag
  \<^verbatim>\<open>linters_do_fixes\<close> passed with it, the groups of the parallel mode are: if the flag is
  true, one group for each descriptor id of an active linter (in the order in which the ids
  first occur), holding all active linters of that id in their order, so that two linters
  with the same descriptor id are in the same group; if the flag is false, one group of one
  linter for each active linter. The flag that \<^verbatim>\<open>run\<close> passes is true exactly when a linter
  that is active before the flavor check applies fixes, whatever the flavor check does; when
  the flavor check leaves the linters as they are, \<^verbatim>\<open>run\<close> passes the active linters of the
  registry, and the flag is true exactly when one of the linters passed applies fixes.
\<close>

theorem groups_follow_the_fix_flag:
  "linter_groups active_linters linters_do_fixes =
        (if linters_do_fixes
         then map (\<lambda>d. filter (\<lambda>l. descriptor_id l = d) active_linters)
                (first_seen (map descriptor_id active_linters))
         else map (\<lambda>l. [l]) active_linters)
     \<and> (linters_do_fixes \<longrightarrow>
          (\<forall>g \<in> set (linter_groups active_linters linters_do_fixes).
           \<forall>g' \<in> set (linter_groups active_linters linters_do_fixes).
           \<forall>l \<in> set g. \<forall>l' \<in> set g'. descriptor_id l = descriptor_id l' \<longrightarrow> g = g'))
     \<and> snd (parallel_arguments check_active_linters_match_flavor ls)
         = (\<exists>l \<in> set (filter is_active ls). apply_fixes l)
     \<and> (check_active_linters_match_flavor (filter is_active ls)
           = (matches, filter is_active ls) \<longrightarrow>
         parallel_arguments check_active_linters_match_flavor ls
           = (filter is_active ls, \<exists>l \<in> set (filter is_active ls). apply_fixes l))"
proof -
  have same: "\<forall>g \<in> set (linter_groups active_linters True).
           \<forall>g' \<in> set (linter_groups active_linters True).
           \<forall>l \<in> set g. \<forall>l' \<in> set g'. descriptor_id l = descriptor_id l' \<longrightarrow> g = g'"
    by (auto simp add: linter_groups_eq)
  have unchanged: "parallel_arguments check_active_linters_match_flavor ls
           = (filter is_active ls, \<exists>l \<in> set (filter is_active ls). apply_fixes l)"
    if "check_active_linters_match_flavor (filter is_active ls)
           = (matches, filter is_active ls)"
    using parallel_arguments_unchanged [of check_active_linters_match_flavor ls matches, OF that]
    by (simp only: select_active_eq)
  from same have "linters_do_fixes \<longrightarrow>
          (\<forall>g \<in> set (linter_groups active_linters linters_do_fixes).
           \<forall>g' \<in> set (linter_groups active_linters linters_do_fixes).
           \<forall>l \<in> set g. \<forall>l' \<in> set g'. descriptor_id l = descriptor_id l' \<longrightarrow> g = g')"
    by (cases linters_do_fixes) simp_all
  with linter_groups_eq [of active_linters linters_do_fixes]
    parallel_arguments_flag [of check_active_linters_match_flavor ls] unchanged
  show ?thesis by blast
qed

text \<open>
  Claim C5, amended, on the specification's example: A and B share the descriptor
  \<open>PYTHON\<close>, A and C apply fixes and the flavor check changes nothing, so that \<^verbatim>\<open>run\<close>
  passes the three linters and a true flag, and the groups are [A, B] and [C]; with a false
  flag the groups are [A], [B] and [C].
\<close>

theorem groups_follow_the_fix_flag_witness:
  "linter_groups
      [\<lparr>name = ''A'', descriptor_id = ''PYTHON'', is_active = True, apply_fixes = True,
        lint_all_files = False, files = [''a.py''], status = ''success'', return_code = 0,
        number_fixed = 0\<rparr>,
       \<lparr>name = ''B'', descriptor_id = ''PYTHON'', is_active = True, apply_fixes = False,
        lint_all_files = False, files = [''a.py''], status = ''success'', return_code = 0,
        number_fixed = 0\<rparr>,
       \<lparr>name = ''C'', descriptor_id = ''JSON'', is_active = True, apply_fixes = True,
        lint_all_files = False, files = [''c.json''], status = ''success'', return_code = 0,
        number_fixed = 0\<rparr>] True
    = [[\<lparr>name = ''A'', descriptor_id = ''PYTHON'', is_active = True, apply_fixes = True,
         lint_all_files = False, files = [''a.py''], status = ''success'', return_code = 0,
         number_fixed = 0\<rparr>,
        \<lparr>name = ''B'', descriptor_id = ''PYTHON'', is_active = True, apply_fixes = False,
         lint_all_files = False, files = [''a.py''], status = ''success'', return_code = 0,
         number_fixed = 0\<rparr>],
       [\<lparr>name = ''C'', descriptor_id = ''JSON'', is_active = True, apply_fixes = True,
         lint_all_files = False, files = [''c.json''], status = ''success'', return_code = 0,
         number_fixed = 0\<rparr>]]
   \<and> linter_groups
      [\<lparr>name = ''A'', descriptor_id = ''PYTHON'', is_active = True, apply_fixes = False,
        lint_all_files = False, files = [''a.py''], status = ''success'', return_code = 0,
        number_fixed = 0\<rparr>,
       \<lparr>name = ''B'', descriptor_id = ''PYTHON'', is_active = True, apply_fixes = False,
        lint_all_files = False, files = [''a.py''], status = ''success'', return_code = 0,
        number_fixed = 0\<rparr>,
       \<lparr>name = ''C'', descriptor_id = ''JSON'', is_active = True, apply_fixes = False,
        lint_all_files = False, files = [''c.json''], status = ''success'', return_code = 0,
        number_fixed = 0\<rparr>] False
    = [[\<lparr>name = ''A'', descriptor_id = ''PYTHON'', is_active = True, apply_fixes = False,
         lint_all_files = False, files = [''a.py''], status = ''success'', return_code = 0,
         number_fixed = 0\<rparr>],
       [\<lparr>name = ''B'', descriptor_id = ''PYTHON'', is_active = True, apply_fixes = False,
         lint_all_files = False, files = [''a.py''], status = ''success'', return_code = 0,
         number_fixed = 0\<rparr>],
       [\<lparr>name = ''C'', descriptor_id = ''JSON'', is_active = True, apply_fixes = False,
         lint_all_files = False, files = [''c.json''], status = ''success'', return_code = 0,
         number_fixed = 0\<rparr>]]
   \<and> parallel_arguments (\<lambda>active_linters. (True, active_linters))
      [\<lparr>name = ''A'', descriptor_id = ''PYTHON'', is_active = True, apply_fixes = True,
        lint_all_files = False, files = [''a.py''], status = ''success'', return_code = 0,
        number_fixed = 0\<rparr>,
       \<lparr>name = ''B'', descriptor_id = ''PYTHON'', is_active = True, apply_fixes = False,
        lint_all_files = False, files = [''a.py''], status = ''success'', return_code = 0,
        number_fixed = 0\<rparr>,
       \<lparr>name = ''C'', descriptor_id = ''JSON'', is_active = True, apply_fixes = True,
        lint_all_files = False, files = [''c.json''], status = ''success'', return_code = 0,
        number_fixed = 0\<rparr>]
    = ([\<lparr>name = ''A'', descriptor_id = ''PYTHON'', is_active = True, apply_fixes = True,
         lint_all_files = False, files = [''a.py''], status = ''success'', return_code = 0,
         number_fixed = 0\<rparr>,
        \<lparr>name = ''B'', descriptor_id = ''PYTHON'', is_active = True, apply_fixes = False,
         lint_all_files = False, files = [''a.py''], status = ''success'', return_code = 0,
         number_fixed = 0\<rparr>,
        \<lparr>name = ''C'', descriptor_id = ''JSON'', is_active = True, apply_fixes = True,
         lint_all_files = False, files = [''c.json''], status = ''success'', return_code = 0,
         number_fixed = 0\<rparr>],
       True)"
proof -
  let ?A = "\<lparr>name = ''A'', descriptor_id = ''PYTHON'', is_active = True, apply_fixes = True,
        lint_all_files = False, files = [''a.py''], status = ''success'', return_code = 0,
        number_fixed = 0\<rparr>"
  let ?B = "\<lparr>name = ''B'', descriptor_id = ''PYTHON'', is_active = True, apply_fixes = False,
        lint_all_files = False, files = [''a.py''], status = ''success'', return_code = 0,
        number_fixed = 0\<rparr>"
  let ?C = "\<lparr>name = ''C'', descriptor_id = ''JSON'', is_active = True, apply_fixes = True,
        lint_all_files = False, files = [''c.json''], status = ''success'', return_code = 0,
        number_fixed = 0\<rparr>"
  let ?A' = "?A\<lparr>apply_fixes := False\<rparr>"
  let ?C' = "?C\<lparr>apply_fixes := False\<rparr>"
  let ?check = "\<lambda>active_linters :: linter list. (True, active_linters)"
  have active: "filter is_active [?A, ?B, ?C] = [?A, ?B, ?C]"
    by simp
  have fixer: "(\<exists>l \<in> set [?A, ?B, ?C]. apply_fixes l) = True"
    by simp
  have "linter_groups [?A, ?B, ?C] True = [[?A, ?B], [?C]]"
    using groups_follow_the_fix_flag [of "[?A, ?B, ?C]" True ?check "[?A, ?B, ?C]" True,
        THEN conjunct1]
    by (simp add: first_seen_def)
  moreover have "linter_groups [?A', ?B, ?C'] False = [[?A'], [?B], [?C']]"
    using groups_follow_the_fix_flag [of "[?A', ?B, ?C']" False ?check "[?A, ?B, ?C]" True,
        THEN conjunct1]
    by simp
  moreover have "parallel_arguments ?check [?A, ?B, ?C] = ([?A, ?B, ?C], True)"
  proof -
    have unchanged: "?check (filter is_active [?A, ?B, ?C]) = (True, filter is_active [?A, ?B, ?C])"
      by (rule refl)
    from groups_follow_the_fix_flag [of "[?A, ?B, ?C]" True ?check "[?A, ?B, ?C]" True,
        THEN conjunct2, THEN conjunct2, THEN conjunct2, rule_format, OF unchanged]
    show ?thesis by (simp only: active fixer)
  qed
  ultimately show ?thesis by simp
qed

section \<open>Reconciliation after the pool\<close>

lemma length_replace_by_name [simp]: "length (replace_by_name u ls) = length ls"
  by (induction ls) simp_all

lemma replace_by_name_distinct:
  "distinct (map name ls) \<Longrightarrow>
   replace_by_name u ls = map (\<lambda>l. if name l = name u then u else l) ls"
proof (induction ls)
  case Nil
  show ?case by simp
next
  case (Cons l ls)
  show ?case
  proof (cases "name l = name u")
    case True
    have "\<forall>x \<in> set ls. name x \<noteq> name u"
    proof
      fix x assume "x \<in> set ls"
      then have "name x \<in> name ` set ls" by (rule imageI)
      moreover from Cons.prems True have "name u \<notin> name ` set ls" by simp
      ultimately show "name x \<noteq> name u" by metis
    qed
    then have "map (\<lambda>l. if name l = name u then u else l) ls = ls"
      by (simp add: map_idI)
    with True show ?thesis by simp
  next
    case False
    with Cons show ?thesis by simp
  qed
qed

lemma update_linters_concat:
  "update_linters pool_results ls
     = foldl (\<lambda>ls u. replace_by_name u ls) ls (concat pool_results)"
  unfolding update_linters_def
  by (induction pool_results arbitrary: ls) simp_all

lemma length_foldl_replace [simp]:
  "length (foldl (\<lambda>ls u. replace_by_name u ls) ls us) = length ls"
  by (induction us arbitrary: ls) simp_all

text \<open>The registry entry for a name after the updates \<open>us\<close>: the last update with that name.\<close>

lemma find_name:
  "find (\<lambda>u. name u = n) us = Some u \<Longrightarrow> name u = n \<and> u \<in> set us"
  by (induction us) (auto split: if_splits)

lemma foldl_replace_by_name:
  "distinct (map name ls) \<Longrightarrow>
   foldl (\<lambda>ls u. replace_by_name u ls) ls us
     = map (\<lambda>l. case find (\<lambda>u. name u = name l) (rev us) of None \<Rightarrow> l | Some u \<Rightarrow> u) ls"
proof (induction us rule: rev_induct)
  case Nil
  show ?case by simp
next
  case (snoc u us)
  let ?g = "\<lambda>l. case find (\<lambda>u. name u = name l) (rev us) of None \<Rightarrow> l | Some u \<Rightarrow> u"
  have name_g: "name (?g l) = name l" for l
    by (auto split: option.splits dest: find_name)
  then have names: "map name (map ?g ls) = map name ls"
    by simp
  have "foldl (\<lambda>ls u. replace_by_name u ls) ls (us @ [u]) = replace_by_name u (map ?g ls)"
    using snoc by simp
  also have "\<dots> = map (\<lambda>l. if name l = name u then u else l) (map ?g ls)"
    using snoc.prems names by (intro replace_by_name_distinct) (simp only:)
  also have "\<dots> = map (\<lambda>l. if name l = name u then u else ?g l) ls"
    by (simp add: name_g)
  also have "\<dots> = map (\<lambda>l. case find (\<lambda>u. name u = name l) (rev (us @ [u])) of
                           None \<Rightarrow> l | Some u \<Rightarrow> u) ls"
    by (intro map_cong) auto
  finally show ?case .
qed

lemma mset_filter_disjoint:
  "\<forall>x \<in> set xs. \<not> (P x \<and> Q x) \<Longrightarrow>
   mset (filter P xs) + mset (filter Q xs) = mset (filter (\<lambda>x. P x \<or> Q x) xs)"
  by (induction xs) auto

lemma mset_concat_filter_keys:
  "distinct ks \<Longrightarrow>
   mset (concat (map (\<lambda>d. filter (\<lambda>x. f x = d) xs) ks))
     = mset (filter (\<lambda>x. f x \<in> set ks) xs)"
proof (induction ks)
  case Nil
  show ?case by simp
next
  case (Cons k ks)
  then have "mset (concat (map (\<lambda>d. filter (\<lambda>x. f x = d) xs) (k # ks)))
      = mset (filter (\<lambda>x. f x = k) xs) + mset (filter (\<lambda>x. f x \<in> set ks) xs)"
    by simp
  also have "\<dots> = mset (filter (\<lambda>x. f x = k \<or> f x \<in> set ks) xs)"
    using Cons.prems by (intro mset_filter_disjoint) auto
  finally show ?case by simp
qed

lemma mset_concat_linter_groups:
  "mset (concat (linter_groups als fixes)) = mset als"
proof (cases "fixes")
  case True
  have "filter (\<lambda>x. descriptor_id x \<in> set (first_seen (map descriptor_id als))) als = als"
    by (simp add: filter_id_conv)
  with True show ?thesis
    by (simp add: linter_groups_eq mset_concat_filter_keys)
next
  case False
  then show ?thesis by (simp add: linter_groups_eq)
qed

lemma list_all2_concat:
  "list_all2 (list_all2 R) gs rs \<Longrightarrow> list_all2 R (concat gs) (concat rs)"
  by (induction gs rs rule: list_all2_induct) (auto intro: list_all2_appendI)

lemma list_all2_names:
  "list_all2 (\<lambda>l u. name u = name l) xs ys \<Longrightarrow> map name ys = map name xs"
  by (induction xs ys rule: list_all2_induct) auto

lemma same_names_concat:
  assumes "same_names groups pool_results"
  shows "map name (concat pool_results) = map name (concat groups)"
  using assms unfolding same_names_def
  by (intro list_all2_names list_all2_concat)

lemma returned_names:
  assumes "distinct (map name ls)"
    and "same_names (linter_groups (filter is_active ls) do_fixes) pool_results"
  shows "distinct (map name (concat pool_results))"
    and "name ` set (concat pool_results) = name ` set (filter is_active ls)"
proof -
  let ?gs = "linter_groups (filter is_active ls) do_fixes"
  have eq: "map name (concat pool_results) = map name (concat ?gs)"
    using assms(2) by (rule same_names_concat)
  have m: "mset (map name (concat ?gs)) = mset (map name (filter is_active ls))"
    by (simp add: mset_concat_linter_groups)
  have d: "distinct (map name (filter is_active ls))"
    using assms(1) by (rule distinct_map_filter)
  from mset_eq_imp_distinct_iff [OF m] d have "distinct (map name (concat ?gs))"
    by (simp only:)
  then show "distinct (map name (concat pool_results))"
    by (simp only: eq)
  have "set (concat ?gs) = set (filter is_active ls)"
    using mset_concat_linter_groups [of "filter is_active ls" do_fixes]
    by (rule mset_eq_setD)
  then have "name ` set (concat ?gs) = name ` set (filter is_active ls)"
    by (simp only:)
  moreover have "name ` set (concat pool_results) = name ` set (concat ?gs)"
    using eq by (metis set_map)
  ultimately show "name ` set (concat pool_results) = name ` set (filter is_active ls)"
    by (simp only:)
qed

text \<open>
  Claim C6: for any lists returned by the pool, the list of linters keeps its length. When
  the names in the list are distinct and the pool returns, for the groups of the active
  linters, linters with the names it was given, then after reconciliation every active
  linter's entry is a returned object, whole, with the entry's name; every entry of an
  inactive linter is unchanged; and every returned object is an entry of the list.
\<close>

theorem reconciliation_replaces_by_name:
  "length (linters (process_linters_parallel pool active_linters linters_do_fixes self))
     = length (linters self)
   \<and> (distinct (map name (linters self))
      \<and> active_linters = filter is_active (linters self)
      \<and> same_names (linter_groups active_linters linters_do_fixes)
           (pool (linter_groups active_linters linters_do_fixes))
      \<longrightarrow>
        (\<forall>i < length (linters self).
           if is_active (linters self ! i)
           then linters (process_linters_parallel pool active_linters linters_do_fixes self) ! i
                  \<in> set (concat (pool (linter_groups active_linters linters_do_fixes)))
              \<and> name (linters
                   (process_linters_parallel pool active_linters linters_do_fixes self) ! i)
                  = name (linters self ! i)
           else linters (process_linters_parallel pool active_linters linters_do_fixes self) ! i
                  = linters self ! i)
        \<and> (\<forall>u \<in> set (concat (pool (linter_groups active_linters linters_do_fixes))).
             u \<in> set (linters
               (process_linters_parallel pool active_linters linters_do_fixes self))))"
proof (intro conjI impI)
  let ?ls = "linters self"
  let ?us = "concat (pool (linter_groups active_linters linters_do_fixes))"
  let ?new = "linters (process_linters_parallel pool active_linters linters_do_fixes self)"
  have new: "?new = foldl (\<lambda>ls u. replace_by_name u ls) ?ls ?us"
    by (simp add: process_linters_parallel_def update_linters_concat)
  show "length ?new = length ?ls"
    by (simp only: new length_foldl_replace)
  assume hyp: "distinct (map name ?ls)
      \<and> active_linters = filter is_active ?ls
      \<and> same_names (linter_groups active_linters linters_do_fixes)
           (pool (linter_groups active_linters linters_do_fixes))"
  then have dist: "distinct (map name ?ls)"
    and act: "active_linters = filter is_active ?ls"
    and same: "same_names (linter_groups (filter is_active ?ls) linters_do_fixes)
           (pool (linter_groups active_linters linters_do_fixes))"
    by auto
  let ?g = "\<lambda>l. case find (\<lambda>u. name u = name l) (rev ?us) of None \<Rightarrow> l | Some u \<Rightarrow> u"
  have closed: "?new = map ?g ?ls"
    unfolding new using dist by (rule foldl_replace_by_name)
  have dist_us: "distinct (map name ?us)"
    and names_us: "name ` set ?us = name ` set (filter is_active ?ls)"
    using returned_names [OF dist same] by simp_all
  have inj_ls: "inj_on name (set ?ls)" and inj_us: "inj_on name (set ?us)"
    using dist dist_us by (simp_all add: distinct_map)
  have active: "?g l \<in> set ?us \<and> name (?g l) = name l"
    if "l \<in> set ?ls" and "is_active l" for l
  proof -
    from that have "l \<in> set (filter is_active ?ls)" by simp
    then have "name l \<in> name ` set (filter is_active ?ls)" by (rule imageI)
    then have "name l \<in> name ` set ?us" by (simp only: names_us)
    then obtain u where "u \<in> set ?us" and "name l = name u" by blast
    then have "\<exists>u \<in> set (rev ?us). name u = name l" by (simp only: set_rev) metis
    then have "find (\<lambda>u. name u = name l) (rev ?us) \<noteq> None"
      by (simp only: find_None_iff) blast
    then obtain u' where f: "find (\<lambda>u. name u = name l) (rev ?us) = Some u'" by auto
    from find_name [OF f] have "name u' = name l" and "u' \<in> set ?us" by simp_all
    with f show ?thesis by simp
  qed
  have inactive: "?g l = l" if "l \<in> set ?ls" and "\<not> is_active l" for l
  proof (cases "find (\<lambda>u. name u = name l) (rev ?us)")
    case None
    then show ?thesis by simp
  next
    case (Some u')
    from find_name [OF Some] have n: "name u' = name l" and m: "u' \<in> set ?us" by simp_all
    from m have "name u' \<in> name ` set ?us" by (rule imageI)
    then have "name l \<in> name ` set (filter is_active ?ls)" by (simp only: names_us n)
    then obtain a where "a \<in> set (filter is_active ?ls)" and na: "name l = name a" by blast
    then have a: "a \<in> set ?ls" "is_active a" by simp_all
    from inj_ls na that(1) a(1) have "l = a" by (rule inj_onD)
    with a that(2) show ?thesis by simp
  qed
  show "\<forall>i < length ?ls.
           if is_active (?ls ! i)
           then ?new ! i \<in> set ?us \<and> name (?new ! i) = name (?ls ! i)
           else ?new ! i = ?ls ! i"
  proof (intro allI impI)
    fix i assume i: "i < length ?ls"
    then have mem: "?ls ! i \<in> set ?ls" by simp
    from i have at: "?new ! i = ?g (?ls ! i)" by (simp only: closed nth_map)
    show "if is_active (?ls ! i)
           then ?new ! i \<in> set ?us \<and> name (?new ! i) = name (?ls ! i)
           else ?new ! i = ?ls ! i"
    proof (cases "is_active (?ls ! i)")
      case True
      from active [OF mem True] have "?g (?ls ! i) \<in> set ?us"
        and "name (?g (?ls ! i)) = name (?ls ! i)" by simp_all
      then have "?new ! i \<in> set ?us \<and> name (?new ! i) = name (?ls ! i)"
        by (simp only: at simp_thms)
      with True show ?thesis by (simp only: if_True)
    next
      case False
      from inactive [OF mem False] have "?new ! i = ?ls ! i"
        by (simp only: at)
      with False show ?thesis by (simp only: if_False)
    qed
  qed
  show "\<forall>u \<in> set ?us. u \<in> set ?new"
  proof
    fix u assume u: "u \<in> set ?us"
    then have "name u \<in> name ` set ?us" by (rule imageI)
    then have "name u \<in> name ` set (filter is_active ?ls)" by (simp only: names_us)
    then obtain a where "a \<in> set (filter is_active ?ls)" and na: "name u = name a" by blast
    then have a: "a \<in> set ?ls" "is_active a" by simp_all
    from active [OF a] have g: "?g a \<in> set ?us" and ng: "name (?g a) = name a" by simp_all
    from ng na have "name (?g a) = name u" by (simp only:)
    with inj_us have "?g a = u" using g u by (rule inj_onD)
    moreover from a(1) have "?g a \<in> set (map ?g ?ls)" by simp
    ultimately show "u \<in> set ?new" by (simp only: closed)
  qed
qed

text \<open>
  Claim C6 on a list of three linters, the second inactive, where every run ends in error
  with return code 1: the list keeps its three entries, the inactive entry is unchanged, and
  the two returned objects are the first and the third entry.
\<close>

theorem reconciliation_replaces_by_name_witness:
  "length (linters (process_linters_parallel
      (map (map (\<lambda>l. l\<lparr>status := ''error'', return_code := 1\<rparr>)))
      [\<lparr>name = ''PYTHON_BLACK'', descriptor_id = ''PYTHON'', is_active = True,
        apply_fixes = True, lint_all_files = False, files = [''a.py''],
        status = ''success'', return_code = 0, number_fixed = 0\<rparr>,
       \<lparr>name = ''PYTHON_FLAKE8'', descriptor_id = ''PYTHON'', is_active = True,
        apply_fixes = False, lint_all_files = False, files = [''a.py''],
        status = ''success'', return_code = 0, number_fixed = 0\<rparr>]
      True
      (new_megalinter ''/tmp/lint'' True False True
        [\<lparr>name = ''PYTHON_BLACK'', descriptor_id = ''PYTHON'', is_active = True,
          apply_fixes = True, lint_all_files = False, files = [''a.py''],
          status = ''success'', return_code = 0, number_fixed = 0\<rparr>,
         \<lparr>name = ''JSON_JSONLINT'', descriptor_id = ''JSON'', is_active = False,
          apply_fixes = False, lint_all_files = False, files = [],
          status = ''success'', return_code = 0, number_fixed = 0\<rparr>,
         \<lparr>name = ''PYTHON_FLAKE8'', descriptor_id = ''PYTHON'', is_active = True,
          apply_fixes = False, lint_all_files = False, files = [''a.py''],
          status = ''success'', return_code = 0, number_fixed = 0\<rparr>]))) = 3
   \<and> linters (process_linters_parallel
      (map (map (\<lambda>l. l\<lparr>status := ''error'', return_code := 1\<rparr>)))
      [\<lparr>name = ''PYTHON_BLACK'', descriptor_id = ''PYTHON'', is_active = True,
        apply_fixes = True, lint_all_files = False, files = [''a.py''],
        status = ''success'', return_code = 0, number_fixed = 0\<rparr>,
       \<lparr>name = ''PYTHON_FLAKE8'', descriptor_id = ''PYTHON'', is_active = True,
        apply_fixes = False, lint_all_files = False, files = [''a.py''],
        status = ''success'', return_code = 0, number_fixed = 0\<rparr>]
      True
      (new_megalinter ''/tmp/lint'' True False True
        [\<lparr>name = ''PYTHON_BLACK'', descriptor_id = ''PYTHON'', is_active = True,
          apply_fixes = True, lint_all_files = False, files = [''a.py''],
          status = ''success'', return_code = 0, number_fixed = 0\<rparr>,
         \<lparr>name = ''JSON_JSONLINT'', descriptor_id = ''JSON'', is_active = False,
          apply_fixes = False, lint_all_files = False, files = [],
          status = ''success'', return_code = 0, number_fixed = 0\<rparr>,
         \<lparr>name = ''PYTHON_FLAKE8'', descriptor_id = ''PYTHON'', is_active = True,
          apply_fixes = False, lint_all_files = False, files = [''a.py''],
          status = ''success'', return_code = 0, number_fixed = 0\<rparr>])) ! 1
     = \<lparr>name = ''JSON_JSONLINT'', descriptor_id = ''JSON'', is_active = False,
          apply_fixes = False, lint_all_files = False, files = [],
          status = ''success'', return_code = 0, number_fixed = 0\<rparr>
   \<and> name (linters (process_linters_parallel
      (map (map (\<lambda>l. l\<lparr>status := ''error'', return_code := 1\<rparr>)))
      [\<lparr>name = ''PYTHON_BLACK'', descriptor_id = ''PYTHON'', is_active = True,
        apply_fixes = True, lint_all_files = False, files = [''a.py''],
        status = ''success'', return_code = 0, number_fixed = 0\<rparr>,
       \<lparr>name = ''PYTHON_FLAKE8'', descriptor_id = ''PYTHON'', is_active = True,
        apply_fixes = False, lint_all_files = False, files = [''a.py''],
        status = ''success'', return_code = 0, number_fixed = 0\<rparr>]
      True
      (new_megalinter ''/tmp/lint'' True False True
        [\<lparr>name = ''PYTHON_BLACK'', descriptor_id = ''PYTHON'', is_active = True,
          apply_fixes = True, lint_all_files = False, files = [''a.py''],
          status = ''success'', return_code = 0, number_fixed = 0\<rparr>,
         \<lparr>name = ''JSON_JSONLINT'', descriptor_id = ''JSON'', is_active = False,
          apply_fixes = False, lint_all_files = False, files = [],
          status = ''success'', return_code = 0, number_fixed = 0\<rparr>,
         \<lparr>name = ''PYTHON_FLAKE8'', descriptor_id = ''PYTHON'', is_active = True,
          apply_fixes = False, lint_all_files = False, files = [''a.py''],
          status = ''success'', return_code = 0, number_fixed = 0\<rparr>])) ! 2)
     = ''PYTHON_FLAKE8''
   \<and> \<lparr>name = ''PYTHON_BLACK'', descriptor_id = ''PYTHON'', is_active = True,
        apply_fixes = True, lint_all_files = False, files = [''a.py''],
        status = ''error'', return_code = 1, number_fixed = 0\<rparr>
     \<in> set (linters (process_linters_parallel
      (map (map (\<lambda>l. l\<lparr>status := ''error'', return_code := 1\<rparr>)))
      [\<lparr>name = ''PYTHON_BLACK'', descriptor_id = ''PYTHON'', is_active = True,
        apply_fixes = True, lint_all_files = False, files = [''a.py''],
        status = ''success'', return_code = 0, number_fixed = 0\<rparr>,
       \<lparr>name = ''PYTHON_FLAKE8'', descriptor_id = ''PYTHON'', is_active = True,
        apply_fixes = False, lint_all_files = False, files = [''a.py''],
        status = ''success'', return_code = 0, number_fixed = 0\<rparr>]
      True
      (new_megalinter ''/tmp/lint'' True False True
        [\<lparr>name = ''PYTHON_BLACK'', descriptor_id = ''PYTHON'', is_active = True,
          apply_fixes = True, lint_all_files = False, files = [''a.py''],
          status = ''success'', return_code = 0, number_fixed = 0\<rparr>,
         \<lparr>name = ''JSON_JSONLINT'', descriptor_id = ''JSON'', is_active = False,
          apply_fixes = False, lint_all_files = False, files = [],
          status = ''success'', return_code = 0, number_fixed = 0\<rparr>,
         \<lparr>name = ''PYTHON_FLAKE8'', descriptor_id = ''PYTHON'', is_active = True,
          apply_fixes = False, lint_all_files = False, files = [''a.py''],
          status = ''success'', return_code = 0, number_fixed = 0\<rparr>])))"
proof -
  let ?A = "\<lparr>name = ''PYTHON_BLACK'', descriptor_id = ''PYTHON'', is_active = True,
        apply_fixes = True, lint_all_files = False, files = [''a.py''],
        status = ''success'', return_code = 0, number_fixed = 0\<rparr>"
  let ?B = "\<lparr>name = ''JSON_JSONLINT'', descriptor_id = ''JSON'', is_active = False,
          apply_fixes = False, lint_all_files = False, files = [],
          status = ''success'', return_code = 0, number_fixed = 0\<rparr>"
  let ?C = "\<lparr>name = ''PYTHON_FLAKE8'', descriptor_id = ''PYTHON'', is_active = True,
        apply_fixes = False, lint_all_files = False, files = [''a.py''],
        status = ''success'', return_code = 0, number_fixed = 0\<rparr>"
  let ?A' = "\<lparr>name = ''PYTHON_BLACK'', descriptor_id = ''PYTHON'', is_active = True,
        apply_fixes = True, lint_all_files = False, files = [''a.py''],
        status = ''error'', return_code = 1, number_fixed = 0\<rparr>"
  let ?pool = "map (map (\<lambda>l::linter. l\<lparr>status := ''error'', return_code := 1\<rparr>))"
  let ?self = "new_megalinter ''/tmp/lint'' True False True [?A, ?B, ?C]"
  let ?new = "linters (process_linters_parallel ?pool [?A, ?C] True ?self)"
  have groups: "linter_groups [?A, ?C] True = [[?A, ?C]]"
    by (simp add: linter_groups_eq first_seen_def)
  have hyp: "distinct (map name (linters ?self))
      \<and> [?A, ?C] = filter is_active (linters ?self)
      \<and> same_names (linter_groups [?A, ?C] True) (?pool (linter_groups [?A, ?C] True))"
    by (simp add: groups same_names_def)
  let ?P = "\<lambda>i. if is_active (linters ?self ! i)
           then ?new ! i \<in> set (concat (?pool (linter_groups [?A, ?C] True)))
              \<and> name (?new ! i) = name (linters ?self ! i)
           else ?new ! i = linters ?self ! i"
  from reconciliation_replaces_by_name [of ?pool "[?A, ?C]" True ?self]
  have len: "length ?new = length (linters ?self)"
    and rest: "(\<forall>i < length (linters ?self). ?P i)
        \<and> (\<forall>u \<in> set (concat (?pool (linter_groups [?A, ?C] True))). u \<in> set ?new)"
    using hyp by blast+
  from len have l3: "length ?new = 3" by simp
  from rest have each: "i < length (linters ?self) \<Longrightarrow> ?P i" for i by blast
  have "1 < length (linters ?self)" by simp
  then have "?P 1" by (rule each)
  then have e1: "?new ! 1 = ?B" by simp
  have "2 < length (linters ?self)" by simp
  then have "?P 2" by (rule each)
  then have e2: "name (?new ! 2) = ''PYTHON_FLAKE8''" by simp
  have "?A' \<in> set (concat (?pool (linter_groups [?A, ?C] True)))"
    by (simp add: groups)
  with rest have e3: "?A' \<in> set ?new" by blast
  from l3 e1 e2 e3 show ?thesis by (intro conjI)
qed

section \<open>The sorted list of files\<close>

lemma set_filenames: "set (filenames es) = {n. File n \<in> set es}"
  by (induction es rule: filenames.induct) auto

lemma set_walk:
  "set (walk ex p es) =
     path_join p ` {n. File n \<in> set es} \<union> (\<Union>e \<in> set es. set (walk_entry ex p e))"
  by (simp add: set_filenames)

lemma set_walk_Cons:
  "set (walk ex p (e # es)) =
     path_join p ` {n. e = File n} \<union> set (walk_entry ex p e) \<union> set (walk ex p es)"
  unfolding set_walk by auto

lemma same_tree_File_left: "same_tree (File n) b \<Longrightarrow> b = File n"
  by (erule same_tree.cases) simp_all

lemma same_tree_File_right: "same_tree a (File n) \<Longrightarrow> a = File n"
  by (erule same_tree.cases) simp_all

lemma same_tree_File_iff: "same_tree a b \<Longrightarrow> a = File n \<longleftrightarrow> b = File n"
  by (auto dest: same_tree_File_left same_tree_File_right)

lemma set_walk_list_all2:
  assumes "list_all2 (\<lambda>a b. same_tree a b
              \<and> (\<forall>p. set (walk_entry ex p a) = set (walk_entry ex p b))) as bs"
  shows "set (walk ex q as) = set (walk ex q bs)"
  using assms
proof (induction as bs rule: list_all2_induct)
  case Nil
  show ?case by simp
next
  case (Cons a as b bs)
  from Cons.hyps(1) have st: "same_tree a b"
    by simp
  have "{n. a = File n} = {n. b = File n}"
    using same_tree_File_iff [OF st] by blast
  moreover from Cons.hyps(1) have "set (walk_entry ex q a) = set (walk_entry ex q b)"
    by simp
  ultimately show ?case
    using Cons.IH by (simp only: set_walk_Cons)
qed

lemma set_walk_mset:
  assumes "mset as = mset bs"
  shows "set (walk ex q as) = set (walk ex q bs)"
proof -
  from assms have "set as = set bs" by (rule mset_eq_setD)
  then show ?thesis by (simp only: set_walk)
qed

lemma same_tree_walk_entry:
  "same_tree a b \<Longrightarrow> \<forall>p. set (walk_entry ex p a) = set (walk_entry ex p b)"
proof (induction rule: same_tree.induct)
  case (same_file n)
  show ?case by simp
next
  case (same_dir sub sub' sub'' d)
  show ?case
  proof
    fix p
    have "set (walk ex (path_join p d) sub) = set (walk ex (path_join p d) sub')"
      using same_dir.IH by (rule set_walk_list_all2)
    also have "\<dots> = set (walk ex (path_join p d) sub'')"
      using same_dir.hyps by (rule set_walk_mset)
    finally show "set (walk_entry ex p (Dir d sub)) = set (walk_entry ex p (Dir d sub''))"
      by simp
  qed
qed

lemma same_tree_walk:
  assumes "same_tree (Dir d root) (Dir d' root')"
  shows "set (walk ex p root) = set (walk ex p root')"
proof -
  from assms obtain sub' where rel: "list_all2 same_tree root sub'"
    and perm: "mset sub' = mset root'"
    by (auto elim: same_tree.cases)
  from rel have "list_all2 (\<lambda>a b. same_tree a b
              \<and> (\<forall>p. set (walk_entry ex p a) = set (walk_entry ex p b))) root sub'"
    by (rule list_all2_mono) (simp add: same_tree_walk_entry)
  then have "set (walk ex p root) = set (walk ex p sub')"
    by (rule set_walk_list_all2)
  also have "\<dots> = set (walk ex p root')"
    using perm by (rule set_walk_mset)
  finally show ?thesis .
qed

lemma set_list_files_all:
  "set (list_files_all ex root self) = set (walk ex (workspace self) root)"
proof -
  have "set (filter (\<lambda>file. File file \<in> set root) (sort (map entry_name root)))
      = {n. File n \<in> set root}"
  proof -
    have "n \<in> entry_name ` set root" if "File n \<in> set root" for n
      using that by (metis entry_name.simps(1) imageI)
    then show ?thesis by auto
  qed
  then show ?thesis
    by (auto simp add: list_files_all_def set_filenames)
qed

lemma sorted_all_files_full_scan:
  assumes "files_to_lint = []" and "validate_all_code_base self"
  shows "sorted_all_files files_to_lint isfile git_diff ex root self
     = Inr (sorted_list_of_set (set (walk ex (workspace self) root)), self)"
  using assms
  by (simp add: sorted_all_files_def list_all_files_def set_list_files_all)

text \<open>
  Claim C8: in every discovery mode, the list that \<^verbatim>\<open>collect_files\<close> hands to the filters
  is sorted (lexicographically, by character code) and without duplicates, and holds
  exactly the paths that were found; and the full scan gives the same list for two
  enumerations of one directory tree, in whatever order the operating system lists the
  entries of each directory.
\<close>

theorem sorted_all_files_sorted_distinct:
  "(list_all_files files_to_lint isfile git_diff ex root self = Inr (all_files, self') \<longrightarrow>
      (\<exists>fs. sorted_all_files files_to_lint isfile git_diff ex root self = Inr (fs, self')
         \<and> sorted fs \<and> distinct fs \<and> set fs = set all_files))
   \<and> (files_to_lint = [] \<and> validate_all_code_base self
        \<and> same_tree (Dir d root) (Dir d root') \<longrightarrow>
      sorted_all_files files_to_lint isfile git_diff ex root self
        = sorted_all_files files_to_lint isfile git_diff ex root' self)"
proof (intro conjI impI)
  assume "list_all_files files_to_lint isfile git_diff ex root self = Inr (all_files, self')"
  then show "\<exists>fs. sorted_all_files files_to_lint isfile git_diff ex root self = Inr (fs, self')
         \<and> sorted fs \<and> distinct fs \<and> set fs = set all_files"
    by (simp add: sorted_all_files_def)
next
  assume a: "files_to_lint = [] \<and> validate_all_code_base self
        \<and> same_tree (Dir d root) (Dir d root')"
  then have st: "same_tree (Dir d root) (Dir d root')"
    by simp
  have "set (walk ex (workspace self) root) = set (walk ex (workspace self) root')"
    using st by (rule same_tree_walk)
  with a show "sorted_all_files files_to_lint isfile git_diff ex root self
        = sorted_all_files files_to_lint isfile git_diff ex root' self"
    by (simp add: sorted_all_files_full_scan)
qed

text \<open>
  Claim C8 on a workspace with one file and one sub-directory of two files, enumerated in
  two different orders: the full scan finds the root file twice, and both enumerations give
  the same three paths, sorted, each once.
\<close>

theorem sorted_all_files_sorted_distinct_witness:
  "sorted_all_files [] (\<lambda>path. True) (Inl GitCommandError) [''.git'']
      [File ''b.py'', Dir ''src'' [File ''c.py'', File ''a.py'']]
      (new_megalinter ''/tmp/lint'' True False True [])
    = Inr ([''/tmp/lint/b.py'', ''/tmp/lint/src/a.py'', ''/tmp/lint/src/c.py''],
           new_megalinter ''/tmp/lint'' True False True [])
   \<and> sorted_all_files [] (\<lambda>path. True) (Inl GitCommandError) [''.git'']
      [Dir ''src'' [File ''a.py'', File ''c.py''], File ''b.py'']
      (new_megalinter ''/tmp/lint'' True False True [])
    = Inr ([''/tmp/lint/b.py'', ''/tmp/lint/src/a.py'', ''/tmp/lint/src/c.py''],
           new_megalinter ''/tmp/lint'' True False True [])
   \<and> sorted [''/tmp/lint/b.py'', ''/tmp/lint/src/a.py'', ''/tmp/lint/src/c.py'']
   \<and> distinct [''/tmp/lint/b.py'', ''/tmp/lint/src/a.py'', ''/tmp/lint/src/c.py'']"
proof -
  let ?self = "new_megalinter ''/tmp/lint'' True False True []"
  let ?root = "[File ''b.py'', Dir ''src'' [File ''c.py'', File ''a.py'']]"
  let ?root' = "[Dir ''src'' [File ''a.py'', File ''c.py''], File ''b.py'']"
  let ?fs = "[''/tmp/lint/b.py'', ''/tmp/lint/src/a.py'', ''/tmp/lint/src/c.py'']"
  note inst = sorted_all_files_sorted_distinct
    [of "[]" "\<lambda>path. True" "Inl GitCommandError" "[''.git'']" ?root ?self
        "[''/tmp/lint/b.py'', ''/tmp/lint/b.py'', ''/tmp/lint/src/a.py'',
          ''/tmp/lint/src/c.py'']" ?self "''''" ?root']
  have raw: "list_all_files [] (\<lambda>path. True) (Inl GitCommandError) [''.git''] ?root ?self
      = Inr ([''/tmp/lint/b.py'', ''/tmp/lint/b.py'', ''/tmp/lint/src/a.py'',
              ''/tmp/lint/src/c.py''], ?self)"
    by (simp add: list_all_files_def list_files_all_def path_join_def)
  have eval: "sorted_all_files [] (\<lambda>path. True) (Inl GitCommandError) [''.git''] ?root ?self
      = Inr (?fs, ?self)"
  proof -
    have "sorted_list_of_set (set [''/tmp/lint/b.py'', ''/tmp/lint/b.py'',
              ''/tmp/lint/src/a.py'', ''/tmp/lint/src/c.py'']) = ?fs"
      by code_simp
    with raw show ?thesis by (simp only: sorted_all_files_def sum.case prod.case)
  qed
  have "same_tree (Dir ''src'' [File ''c.py'', File ''a.py''])
      (Dir ''src'' [File ''a.py'', File ''c.py''])"
    by (rule same_dir [of _ "[File ''c.py'', File ''a.py'']"])
       (simp_all add: same_file)
  then have st: "same_tree (Dir '''' ?root) (Dir '''' ?root')"
    by (intro same_dir [of _ "[File ''b.py'', Dir ''src'' [File ''a.py'', File ''c.py'']]"])
       (simp_all add: same_file)
  from inst raw obtain fs
    where "sorted_all_files [] (\<lambda>path. True) (Inl GitCommandError) [''.git''] ?root ?self
        = Inr (fs, ?self)"
      and "sorted fs" and "distinct fs"
    by blast
  with eval have props: "sorted ?fs" "distinct ?fs" by simp_all
  have mode: "validate_all_code_base ?self" by simp
  from inst st mode
  have "sorted_all_files [] (\<lambda>path. True) (Inl GitCommandError) [''.git''] ?root ?self
      = sorted_all_files [] (\<lambda>path. True) (Inl GitCommandError) [''.git''] ?root' ?self"
    by blast
  with eval have "sorted_all_files [] (\<lambda>path. True) (Inl GitCommandError) [''.git'']
      ?root' ?self = Inr (?fs, ?self)"
    by (simp only:)
  with eval props show ?thesis by (intro conjI)
qed

end
